theory Spec2Isabelle
  imports Complex_Main "HOL-Library.AList"
begin

section \<open>Python values\<close>

text \<open>
  The module \<^verbatim>\<open>py_voat/classes.py\<close> builds attribute bags (\<^verbatim>\<open>VoatObject\<close>) out of
  JSON payloads and resolves relations lazily through an attached \<^verbatim>\<open>Voat\<close> object.
  Python values are modelled by one datatype. A \<^verbatim>\<open>str\<close> is the list of its code points,
  restricted to U+0000..U+00FF (one \<open>char\<close> per code point). A \<^verbatim>\<open>dict\<close> and the
  instance dictionary of an object are association lists read with \<open>map_of\<close>.
  An instance of \<^verbatim>\<open>Submission\<close>, \<^verbatim>\<open>Subverse\<close> or \<^verbatim>\<open>Comment\<close> is \<open>PObj\<close> with its class
  and its instance dictionary; \<open>PVoat n\<close> is an instance of the \<^verbatim>\<open>Voat\<close> class, whose code
  is not part of this module. Floating point payload values are left out; objects are
  values, so identity of objects is equality of values.
\<close>

datatype cls = Submission | Subverse | Comment

datatype pyval =
    PNone
  | PBool bool
  | PInt int
  | PStr string
  | PList "pyval list"
  | PDict "(string \<times> pyval) list"
  | PObj cls "(string \<times> pyval) list"
  | PVoat nat

type_synonym attrs = "(string \<times> pyval) list"

datatype exn =
    KeyError string
  | TypeError
  | AttributeError
  | ValueError
  | VoatBadExpiry
  | VoatExpiredToken
  | OverflowError
  | OtherError string

definition bind_exn :: "exn + 'a \<Rightarrow> ('a \<Rightarrow> exn + 'b) \<Rightarrow> exn + 'b" where
  "bind_exn m f = (case m of Inl e \<Rightarrow> Inl e | Inr x \<Rightarrow> f x)"

text \<open>\<^verbatim>\<open>bool(x)\<close>: the truth value of a Python value.\<close>

fun py_truthy :: "pyval \<Rightarrow> bool" where
  "py_truthy PNone = False"
| "py_truthy (PBool b) = b"
| "py_truthy (PInt n) = (n \<noteq> 0)"
| "py_truthy (PStr s) = (s \<noteq> [])"
| "py_truthy (PList xs) = (xs \<noteq> [])"
| "py_truthy (PDict d) = (d \<noteq> [])"
| "py_truthy (PObj c a) = True"
| "py_truthy (PVoat n) = True"

text \<open>\<^verbatim>\<open>isinstance(x, int)\<close> holds of \<^verbatim>\<open>bool\<close> too; \<open>int_of\<close> is the number such a value
  stands for in arithmetic.\<close>

fun int_of :: "pyval \<Rightarrow> int option" where
  "int_of (PInt n) = Some n"
| "int_of (PBool b) = Some (if b then 1 else 0)"
| "int_of _ = None"

definition isinstance_int :: "pyval \<Rightarrow> bool" where
  "isinstance_int v = (int_of v \<noteq> None)"

text \<open>\<^verbatim>\<open>a - b\<close>: defined on \<^verbatim>\<open>int\<close> and \<^verbatim>\<open>bool\<close> operands, \<^verbatim>\<open>TypeError\<close> otherwise.\<close>

definition py_sub :: "pyval \<Rightarrow> pyval \<Rightarrow> exn + pyval" where
  "py_sub a b =
     (case (int_of a, int_of b) of
        (Some m, Some n) \<Rightarrow> Inr (PInt (m - n))
      | _ \<Rightarrow> Inl TypeError)"

text \<open>\<^verbatim>\<open>a == b\<close>. Numbers compare by value across \<^verbatim>\<open>bool\<close> and \<^verbatim>\<open>int\<close>, lists
  element by element, dicts key by key.\<close>

fun py_eq :: "pyval \<Rightarrow> pyval \<Rightarrow> bool" where
  "py_eq PNone PNone = True"
| "py_eq (PBool a) (PBool b) = (a = b)"
| "py_eq (PBool a) (PInt b) = ((if a then 1 else 0) = b)"
| "py_eq (PInt a) (PBool b) = (a = (if b then 1 else 0))"
| "py_eq (PInt a) (PInt b) = (a = b)"
| "py_eq (PStr a) (PStr b) = (a = b)"
| "py_eq (PList xs) (PList ys) = list_all2 py_eq xs ys"
| "py_eq (PDict xs) (PDict ys) =
     (length (remdups (map fst xs)) = length (remdups (map fst ys)) \<and>
      list_all (\<lambda>(k, v). case map_of ys k of None \<Rightarrow> False | Some v' \<Rightarrow> py_eq v v') xs)"
| "py_eq (PObj c a) (PObj d b) = (c = d \<and> a = b)"
| "py_eq (PVoat m) (PVoat n) = (m = n)"
| "py_eq _ _ = False"

text \<open>\<^verbatim>\<open>for i in x\<close>: the elements of a list, the characters of a string, the keys of a
  dict; anything else is not iterable.\<close>

fun py_iter :: "pyval \<Rightarrow> exn + pyval list" where
  "py_iter (PList xs) = Inr xs"
| "py_iter (PStr s) = Inr (map (\<lambda>c. PStr [c]) s)"
| "py_iter (PDict d) = Inr (map (\<lambda>kv. PStr (fst kv)) d)"
| "py_iter _ = Inl TypeError"

subsection \<open>Dictionaries and attributes\<close>

text \<open>\<^verbatim>\<open>d.get(k, default)\<close> and \<^verbatim>\<open>d[k]\<close>.\<close>

definition dict_get :: "attrs \<Rightarrow> string \<Rightarrow> pyval \<Rightarrow> pyval" where
  "dict_get d k dflt = (case map_of d k of None \<Rightarrow> dflt | Some v \<Rightarrow> v)"

definition dict_item :: "attrs \<Rightarrow> string \<Rightarrow> exn + pyval" where
  "dict_item d k = (case map_of d k of None \<Rightarrow> Inl (KeyError k) | Some v \<Rightarrow> Inr v)"

text \<open>\<^verbatim>\<open>getattr(self, name, default)\<close> and \<^verbatim>\<open>self.name\<close> on the instance dictionary of
  \<^verbatim>\<open>self\<close>, for the names the module reads (none of them is a property).\<close>

definition getattr :: "attrs \<Rightarrow> string \<Rightarrow> pyval \<Rightarrow> pyval" where
  "getattr self name dflt = (case map_of self name of None \<Rightarrow> dflt | Some v \<Rightarrow> v)"

definition attr :: "attrs \<Rightarrow> string \<Rightarrow> exn + pyval" where
  "attr self name = (case map_of self name of None \<Rightarrow> Inl AttributeError | Some v \<Rightarrow> Inr v)"

text \<open>\<^verbatim>\<open>getattr(i, name, default)\<close> on any value: only objects carry the attribute.\<close>

fun getattr_val :: "pyval \<Rightarrow> string \<Rightarrow> pyval \<Rightarrow> pyval" where
  "getattr_val (PObj c a) name dflt = getattr a name dflt"
| "getattr_val _ name dflt = dflt"

text \<open>
  \<^verbatim>\<open>setattr(self, k, v)\<close>. \<^verbatim>\<open>Submission.comments\<close> and \<^verbatim>\<open>Subverse.posts\<close> are properties
  with a setter that writes the private slot; \<^verbatim>\<open>Comment.parent\<close> and \<^verbatim>\<open>Comment.children\<close>
  are properties without a setter, so assigning them raises \<^verbatim>\<open>AttributeError\<close>.
\<close>

definition setattr :: "cls \<Rightarrow> attrs \<Rightarrow> string \<Rightarrow> pyval \<Rightarrow> exn + attrs" where
  "setattr c self k v =
     (if c = Submission \<and> k = ''comments'' then Inr (AList.update ''_comments'' v self)
      else if c = Subverse \<and> k = ''posts'' then Inr (AList.update ''_posts'' v self)
      else if c = Comment \<and> (k = ''parent'' \<or> k = ''children'') then Inl AttributeError
      else Inr (AList.update k v self))"

text \<open>\<^verbatim>\<open>VoatObject.__init__(self, **kwargs)\<close>: one \<^verbatim>\<open>setattr\<close> per keyword argument.\<close>

fun VoatObject_init :: "cls \<Rightarrow> attrs \<Rightarrow> attrs \<Rightarrow> exn + attrs" where
  "VoatObject_init c self [] = Inr self"
| "VoatObject_init c self ((k, v) # kwargs) =
     bind_exn (setattr c self k v) (\<lambda>self'. VoatObject_init c self' kwargs)"

text \<open>\<^verbatim>\<open>cls(**kwargs)\<close>. \<^verbatim>\<open>Submission.__init__\<close> runs the base initialiser and then sets
  \<^verbatim>\<open>self._comments = None\<close>; the other two classes inherit the base initialiser.\<close>

definition construct :: "cls \<Rightarrow> attrs \<Rightarrow> exn + attrs" where
  "construct c kwargs =
     bind_exn (VoatObject_init c [] kwargs)
       (\<lambda>self. Inr (if c = Submission then AList.update ''_comments'' PNone self else self))"

section \<open>AuthToken\<close>

text \<open>
  \<^verbatim>\<open>str.isdigit()\<close>: the string is not empty and every character has the Unicode
  property Digit. Among the code points up to U+00FF these are \<^verbatim>\<open>0\<close>..\<^verbatim>\<open>9\<close> and the
  superscripts U+00B2, U+00B3 and U+00B9. \<^verbatim>\<open>int(s)\<close> on such a string accepts decimal
  digits only and raises \<^verbatim>\<open>ValueError\<close> on a superscript.
\<close>

definition is_decimal_char :: "char \<Rightarrow> bool" where
  "is_decimal_char c = (48 \<le> (of_char c :: nat) \<and> (of_char c :: nat) \<le> 57)"

definition is_digit_char :: "char \<Rightarrow> bool" where
  "is_digit_char c =
     (is_decimal_char c \<or> (of_char c :: nat) = 178 \<or> (of_char c :: nat) = 179
        \<or> (of_char c :: nat) = 185)"

definition isdigit :: "string \<Rightarrow> bool" where
  "isdigit s = (s \<noteq> [] \<and> list_all is_digit_char s)"

definition decimal_value :: "string \<Rightarrow> int" where
  "decimal_value s = foldl (\<lambda>acc c. 10 * acc + (int (of_char c) - 48)) 0 s"

definition py_int :: "string \<Rightarrow> exn + pyval" where
  "py_int s =
     (if list_all is_decimal_char s then Inr (PInt (decimal_value s)) else Inl ValueError)"

subsection \<open>Floating point numbers\<close>

text \<open>
  \<^verbatim>\<open>time.time()\<close> returns a \<^verbatim>\<open>float\<close>, an IEEE 754 double. A finite double is modelled by a
  pair \<open>(m, e)\<close> that stands for \<open>m * 2 ^ e\<close>, with \<open>\<bar>m\<bar> < 2 ^ 53\<close> and
  \<open>- 1074 \<le> e \<le> 971\<close> (\<open>is_double\<close>); a number has several such pairs, and the operations
  compare and add the numbers they stand for.
\<close>

type_synonym dbl = "int \<times> int"

definition is_double :: "dbl \<Rightarrow> bool" where
  "is_double d = (\<bar>fst d\<bar> < 2 ^ 53 \<and> - 1074 \<le> snd d \<and> snd d \<le> 971)"

definition dval :: "dbl \<Rightarrow> real" where
  "dval d = real_of_int (fst d) * 2 powi (snd d)"

text \<open>The number of binary digits of a positive integer.\<close>

function nbits :: "int \<Rightarrow> nat" where
  "nbits m = (if m \<le> 0 then 0 else Suc (nbits (m div 2)))"
  by pat_completeness auto
termination
  by (relation "measure nat") auto

declare nbits.simps [simp del]

text \<open>
  Rounding \<open>m * 2 ^ e\<close> to 53 significant bits, to the nearest and on a tie to the even
  mantissa: what the processor does with the exact result of an operation. With
  \<open>e \<ge> - 1074\<close> a number of at most 53 bits needs no rounding, and a longer one lies in the
  range of the normal doubles.
\<close>

definition round53 :: "int \<Rightarrow> int \<Rightarrow> dbl" where
  "round53 m e =
     (let k = nbits \<bar>m\<bar>
      in if k \<le> 53 then (m, e)
         else
           (let s = k - 53;
                q = \<bar>m\<bar> div 2 ^ s;
                r = \<bar>m\<bar> mod 2 ^ s;
                q' = (if 2 * r > 2 ^ s \<or> (2 * r = 2 ^ s \<and> odd q) then q + 1 else q)
            in (sgn m * q', e + int s)))"

text \<open>A rounded result beyond the largest double: its magnitude is \<open>2 ^ 1024\<close> or more.\<close>

definition too_big :: "dbl \<Rightarrow> bool" where
  "too_big d = (0 \<le> snd d \<and> \<bar>fst d\<bar> * 2 ^ nat (snd d) \<ge> 2 ^ 1024)"

text \<open>
  The conversion of an \<^verbatim>\<open>int\<close> operand in \<^verbatim>\<open>float + int\<close>: the integer is rounded to a
  double, and an integer beyond the range raises \<^verbatim>\<open>OverflowError\<close> (``int too large to
  convert to float'').
\<close>

definition float_of_int :: "int \<Rightarrow> exn + dbl" where
  "float_of_int n = (let d = round53 n 0 in if too_big d then Inl OverflowError else Inr d)"

text \<open>The sum of two doubles: the exact sum, written with the smaller exponent, then
  rounded; a sum beyond the range is an infinity, not an exception.\<close>

datatype pyfloat = Fin dbl | PosInf | NegInf

definition aligned_sum :: "dbl \<Rightarrow> dbl \<Rightarrow> int" where
  "aligned_sum a b =
     (let e = min (snd a) (snd b)
      in fst a * 2 ^ nat (snd a - e) + fst b * 2 ^ nat (snd b - e))"

definition float_add :: "dbl \<Rightarrow> dbl \<Rightarrow> pyfloat" where
  "float_add a b =
     (let m = aligned_sum a b;
          d = round53 m (min (snd a) (snd b))
      in if too_big d then (if m > 0 then PosInf else NegInf) else Fin d)"

text \<open>The exact sum has at most 53 significant bits, so the addition does not round.\<close>

definition sum_is_exact :: "dbl \<Rightarrow> dbl \<Rightarrow> bool" where
  "sum_is_exact a b = (nbits \<bar>aligned_sum a b\<bar> \<le> 53)"

text \<open>\<^verbatim>\<open>a >= b\<close> on a finite double and the result of an addition.\<close>

definition dbl_ge :: "dbl \<Rightarrow> dbl \<Rightarrow> bool" where
  "dbl_ge a b =
     (let e = min (snd a) (snd b)
      in fst a * 2 ^ nat (snd a - e) \<ge> fst b * 2 ^ nat (snd b - e))"

fun float_ge :: "dbl \<Rightarrow> pyfloat \<Rightarrow> bool" where
  "float_ge a (Fin b) = dbl_ge a b"
| "float_ge a PosInf = False"
| "float_ge a NegInf = True"

subsection \<open>The token\<close>

text \<open>
  The fields of an \<^verbatim>\<open>AuthToken\<close>; \<open>token_priv\<close> is \<^verbatim>\<open>_token\<close>, written by the setter of
  the \<^verbatim>\<open>token\<close> property. The reading of the clock, \<^verbatim>\<open>time.time()\<close>, is a parameter of
  the two operations that read it.
\<close>

record AuthToken =
  username :: pyval
  expiry_date :: pyval
  gotten_at :: dbl
  token_type :: pyval
  token_priv :: pyval

definition AuthToken_init ::
    "dbl \<Rightarrow> pyval \<Rightarrow> pyval \<Rightarrow> pyval \<Rightarrow> pyval \<Rightarrow> exn + AuthToken" where
  "AuthToken_init now uname tok ttype expiry =
     bind_exn
       (case expiry of
          PStr s \<Rightarrow> (if isdigit s then py_int s else Inr expiry)
        | _ \<Rightarrow> Inr expiry)
       (\<lambda>expiry'.
          if \<not> isinstance_int expiry' then Inl VoatBadExpiry
          else Inr \<lparr>username = uname, expiry_date = expiry', gotten_at = now,
                    token_type = ttype, token_priv = tok\<rparr>)"

text \<open>
  The getter of the \<^verbatim>\<open>token\<close> property, at clock reading \<open>now\<close>:
  \<^verbatim>\<open>time.time() >= self.gotten_at + self.expiry_date\<close> converts the expiry to a double,
  adds in floating point and compares.
\<close>

definition AuthToken_token :: "dbl \<Rightarrow> AuthToken \<Rightarrow> exn + pyval" where
  "AuthToken_token now a =
     (case int_of (expiry_date a) of
        None \<Rightarrow> Inl TypeError
      | Some n \<Rightarrow>
          bind_exn (float_of_int n)
            (\<lambda>x. if float_ge now (float_add (gotten_at a) x) then Inl VoatExpiredToken
                  else Inr (token_priv a)))"

section \<open>The factories\<close>

text \<open>
  \<^verbatim>\<open>date.split(".")[0]\<close>: the part of a string before the first dot. A value that is
  not a string has no \<^verbatim>\<open>split\<close> method (an object that carries an instance attribute of
  that name holds a value that cannot be called).
\<close>

fun split_dot_head :: "pyval \<Rightarrow> exn + string" where
  "split_dot_head (PStr s) = Inr (takeWhile (\<lambda>c. c \<noteq> CHR ''.'') s)"
| "split_dot_head (PObj c a) =
     (if map_of a ''split'' = None then Inl AttributeError else Inl TypeError)"
| "split_dot_head _ = Inl AttributeError"

text \<open>
  \<^verbatim>\<open>Submission.from_dict(json_data, voat_instance)\<close>. The library function
  \<^verbatim>\<open>datetime.strptime\<close> with the format \<^verbatim>\<open>%Y-%m-%dT%H:%M:%S\<close> is the parameter
  \<open>strptime_ok\<close>: whether it accepts the string (it raises \<^verbatim>\<open>ValueError\<close> otherwise).
  Its result is discarded by the source; the date stays the payload's value.
\<close>

definition Submission_from_dict ::
    "(string \<Rightarrow> bool) \<Rightarrow> attrs \<Rightarrow> pyval \<Rightarrow> exn + attrs" where
  "Submission_from_dict strptime_ok json_data voat_instance =
     (let d = dict_get json_data ''date'' PNone;
          date = (if py_truthy d then d else PNone)
      in bind_exn
           (if date \<noteq> PNone
            then bind_exn (split_dot_head date)
                   (\<lambda>s. if strptime_ok s then Inr () else Inl ValueError)
            else Inr ())
           (\<lambda>_. construct Submission
              [(''title'', dict_get json_data ''title'' (PStr '''')),
               (''content'', dict_get json_data ''content'' (PStr '''')),
               (''comments'', PNone),
               (''author'', dict_get json_data ''userName'' (PStr '''')),
               (''post_id'', dict_get json_data ''id'' (PInt (- 1))),
               (''subverse'', dict_get json_data ''subverse'' (PStr '''')),
               (''karma'', dict_get json_data ''upVotes'' (PInt (- 1))),
               (''views'', dict_get json_data ''views'' (PInt (- 1))),
               (''date'', date),
               (''voat'', voat_instance),
               (''is_url'', PBool (py_truthy (dict_get json_data ''url'' PNone)))]))"

definition Subverse_from_dict :: "attrs \<Rightarrow> pyval \<Rightarrow> exn + attrs" where
  "Subverse_from_dict json_data voat_instance =
     (let date = dict_get json_data ''creationDate'' PNone
      in construct Subverse
           [(''title'', dict_get json_data ''title'' (PStr '''')),
            (''name'', dict_get json_data ''name'' (PStr '''')),
            (''nsfw'', dict_get json_data ''ratedAdult'' PNone),
            (''sidebar'', dict_get json_data ''sidebar'' (PStr '''')),
            (''date'', date),
            (''voat'', voat_instance),
            (''subscribers'', dict_get json_data ''subscriberCount'' (PInt (- 1))),
            (''description'', dict_get json_data ''description'' (PStr ''''))])"

definition Comment_from_dict :: "attrs \<Rightarrow> pyval \<Rightarrow> exn + attrs" where
  "Comment_from_dict json_data voat_instance =
     bind_exn (dict_item json_data ''date'') (\<lambda>date.
     bind_exn (dict_item json_data ''id'') (\<lambda>cid.
     bind_exn (dict_item json_data ''content'') (\<lambda>content.
     bind_exn (dict_item json_data ''upVotes'') (\<lambda>up.
     bind_exn (dict_item json_data ''downVotes'') (\<lambda>down.
     bind_exn (py_sub up down) (\<lambda>karma.
     bind_exn (dict_item json_data ''subverse'') (\<lambda>subverse.
     bind_exn (dict_item json_data ''userName'') (\<lambda>author.
     bind_exn (dict_item json_data ''parentID'') (\<lambda>parent_id.
     bind_exn (dict_item json_data ''submissionID'') (\<lambda>submission_id.
       construct Comment
         [(''voat'', voat_instance),
          (''comment_id'', cid),
          (''date'', date),
          (''content'', content),
          (''karma'', karma),
          (''subverse'', subverse),
          (''author'', author),
          (''parent_id'', parent_id),
          (''submission_id'', submission_id)]))))))))))"

section \<open>The attached handle and the lazy relations\<close>

text \<open>
  The \<^verbatim>\<open>Voat\<close> class is outside this module, so the behaviour of the object stored in
  the \<^verbatim>\<open>voat\<close> attribute is a parameter: given the receiver, the method call and the
  state of the outside world, it raises or returns a value, and leaves a new state.
  Every invocation is recorded in \<open>calls\<close>, so that "no fetch" is "the world is unchanged".
\<close>

datatype call =
    FetchComments pyval pyval
  | GetSubversePosts pyval
  | GetComment pyval

type_synonym 'w handle = "pyval \<Rightarrow> call \<Rightarrow> 'w \<Rightarrow> (exn + pyval) \<times> 'w"

record 'w world =
  calls :: "(pyval \<times> call) list"
  st :: 'w

definition invoke :: "'w handle \<Rightarrow> pyval \<Rightarrow> call \<Rightarrow> 'w world \<Rightarrow> (exn + pyval) \<times> 'w world" where
  "invoke h v c w =
     (case h v c (st w) of
        (r, s') \<Rightarrow> (r, \<lparr>calls = calls w @ [(v, c)], st = s'\<rparr>))"

text \<open>
  Each property getter takes the instance dictionary of \<^verbatim>\<open>self\<close> and the world, and
  returns the value or the exception, the instance dictionary after the access, and
  the world after the access.
\<close>

definition Submission_comments ::
    "'w handle \<Rightarrow> attrs \<Rightarrow> 'w world \<Rightarrow> (exn + pyval) \<times> attrs \<times> 'w world" where
  "Submission_comments h self w =
     (if getattr self ''_comments'' PNone = PNone then
        (if getattr self ''voat'' PNone \<noteq> PNone then
           (case invoke h (getattr self ''voat'' PNone)
                   (FetchComments (getattr self ''post_id'' (PInt 0))
                                  (getattr self ''subverse'' PNone)) w of
              (Inl e, w') \<Rightarrow> (Inl e, self, w')
            | (Inr r, w') \<Rightarrow>
                (let self' = AList.update ''_comments'' r self
                 in (attr self' ''_comments'', self', w')))
         else
           (let self' = AList.update ''_comments'' (PList []) self
            in (attr self' ''_comments'', self', w)))
      else (attr self ''_comments'', self, w))"

definition Subverse_posts ::
    "'w handle \<Rightarrow> attrs \<Rightarrow> 'w world \<Rightarrow> (exn + pyval) \<times> attrs \<times> 'w world" where
  "Subverse_posts h self w =
     (if getattr self ''_posts'' PNone = PNone then
        (if getattr self ''voat'' PNone \<noteq> PNone then
           (case attr self ''name'' of
              Inl e \<Rightarrow> (Inl e, self, w)
            | Inr name \<Rightarrow>
               (case invoke h (getattr self ''voat'' PNone) (GetSubversePosts name) w of
                  (Inl e, w') \<Rightarrow> (Inl e, self, w')
                | (Inr r, w') \<Rightarrow>
                    (let self' = AList.update ''_posts'' r self
                     in (attr self' ''_posts'', self', w'))))
         else
           (let self' = AList.update ''_posts'' (PList []) self
            in (attr self' ''_posts'', self', w)))
      else (attr self ''_posts'', self, w))"

text \<open>\<^verbatim>\<open>self.__class__()\<close> in \<^verbatim>\<open>Comment.parent\<close>: a comment built from no keyword
  arguments.\<close>

definition new_comment :: "exn + pyval" where
  "new_comment = bind_exn (construct Comment []) (\<lambda>a. Inr (PObj Comment a))"

definition Comment_parent ::
    "'w handle \<Rightarrow> attrs \<Rightarrow> 'w world \<Rightarrow> (exn + pyval) \<times> attrs \<times> 'w world" where
  "Comment_parent h self w =
     (if getattr self ''_parent'' PNone = PNone then
        (if getattr self ''voat'' PNone \<noteq> PNone \<and> getattr self ''parent_id'' PNone \<noteq> PNone then
           (case invoke h (getattr self ''voat'' PNone)
                   (GetComment (getattr self ''parent_id'' PNone)) w of
              (Inl e, w') \<Rightarrow>
                (case new_comment of
                   Inl e' \<Rightarrow> (Inl e', self, w')
                 | Inr p \<Rightarrow>
                     (let self' = AList.update ''_parent'' p self
                      in (attr self' ''_parent'', self', w')))
            | (Inr r, w') \<Rightarrow>
                (let self' = AList.update ''_parent'' r self
                 in (attr self' ''_parent'', self', w')))
         else
           (case new_comment of
              Inl e' \<Rightarrow> (Inl e', self, w)
            | Inr p \<Rightarrow>
                (let self' = AList.update ''_parent'' p self
                 in (attr self' ''_parent'', self', w))))
      else (attr self ''_parent'', self, w))"

text \<open>The list comprehension of \<^verbatim>\<open>Comment.children\<close>: the condition reads
  \<^verbatim>\<open>self.comment_id\<close> once per element, and raises if the attribute is missing.\<close>

fun select_children :: "attrs \<Rightarrow> pyval list \<Rightarrow> exn + pyval list" where
  "select_children self [] = Inr []"
| "select_children self (i # rest) =
     bind_exn (attr self ''comment_id'') (\<lambda>cid.
     bind_exn (select_children self rest) (\<lambda>r.
       Inr (if py_eq (getattr_val i ''parent_id'' PNone) cid then i # r else r)))"

definition Comment_children ::
    "'w handle \<Rightarrow> attrs \<Rightarrow> 'w world \<Rightarrow> (exn + pyval) \<times> attrs \<times> 'w world" where
  "Comment_children h self w =
     (if getattr self ''_children'' PNone = PNone then
        (if getattr self ''submission_id'' PNone \<noteq> PNone \<and> getattr self ''voat'' PNone \<noteq> PNone then
           (case invoke h (getattr self ''voat'' PNone)
                   (FetchComments (getattr self ''submission_id'' PNone)
                                  (getattr self ''subverse'' PNone)) w of
              (Inl e, w') \<Rightarrow> (Inl e, self, w')
            | (Inr comments, w') \<Rightarrow>
                (case bind_exn (py_iter comments) (select_children self) of
                   Inl e \<Rightarrow> (Inl e, self, w')
                 | Inr r \<Rightarrow>
                     (let self' = AList.update ''_children'' (PList r) self
                      in (attr self' ''_children'', self', w'))))
         else
           (let self' = AList.update ''_children'' (PList []) self
            in (attr self' ''_children'', self', w)))
      else (attr self ''_children'', self, w))"

section \<open>Reading results, and concrete inputs\<close>

text \<open>\<^verbatim>\<open>factory(...).name\<close>: an attribute of the entity a factory returned.\<close>

definition result_attr :: "exn + attrs \<Rightarrow> string \<Rightarrow> exn + pyval" where
  "result_attr r name = bind_exn r (\<lambda>self. attr self name)"

text \<open>A stand-in for \<^verbatim>\<open>datetime.strptime\<close> on concrete inputs: it accepts the strings that
  have the length of \<^verbatim>\<open>2015-06-01T12:00:00\<close>.\<close>

definition ex_strptime_ok :: "string \<Rightarrow> bool" where
  "ex_strptime_ok s = (length s = 19)"

text \<open>Three comments of submission 7, as a handle would return them.\<close>

definition ex_comments :: "pyval list" where
  "ex_comments =
     [PObj Comment [(''comment_id'', PInt 2), (''parent_id'', PInt 1)],
      PObj Comment [(''comment_id'', PInt 3), (''parent_id'', PNone)],
      PObj Comment [(''comment_id'', PInt 4), (''parent_id'', PInt 1)]]"

text \<open>A handle that knows submission 7 and comment 9, and counts its calls in its state.\<close>

fun ex_handle :: "nat handle" where
  "ex_handle v (FetchComments p sv) s = (Inr (PList ex_comments), Suc s)"
| "ex_handle v (GetSubversePosts name) s =
     (Inr (PList [PObj Submission [(''post_id'', PInt 7)]]), Suc s)"
| "ex_handle v (GetComment p) s =
     (if p = PInt 9 then Inr (PObj Comment [(''comment_id'', PInt 9)])
      else Inl (OtherError ''not found''), Suc s)"

text \<open>A handle whose first answer is \<^verbatim>\<open>None\<close> and whose later answers are the empty list.\<close>

definition none_first_handle :: "nat handle" where
  "none_first_handle v c s = (if s = 0 then Inr PNone else Inr (PList []), Suc s)"

definition ex_submission :: attrs where
  "ex_submission = [(''post_id'', PInt 7), (''subverse'', PStr ''pics''), (''voat'', PVoat 0)]"

definition ex_subverse :: attrs where
  "ex_subverse = [(''name'', PStr ''pics''), (''voat'', PVoat 0)]"

definition ex_comment :: attrs where
  "ex_comment =
     [(''voat'', PVoat 0), (''comment_id'', PInt 1), (''parent_id'', PInt 9),
      (''submission_id'', PInt 7), (''subverse'', PStr ''pics'')]"

definition ex_orphan :: attrs where
  "ex_orphan =
     [(''voat'', PVoat 0), (''comment_id'', PInt 5), (''parent_id'', PInt 3),
      (''submission_id'', PInt 7)]"

definition ex_top_level :: attrs where
  "ex_top_level =
     [(''voat'', PVoat 0), (''comment_id'', PInt 3), (''parent_id'', PNone),
      (''submission_id'', PInt 7)]"

text \<open>A clock reading one tick (\<open>2 ^ - 22\<close> seconds) after \<open>2 ^ 31 - 3600\<close> seconds, in
  January 2038 of the Unix clock.\<close>

definition ex_gotten_at :: dbl where
  "ex_gotten_at = ((2 ^ 31 - 3600) * 2 ^ 22 + 1, - 22)"

definition ex_world :: "nat world" where
  "ex_world = \<lparr>calls = [], st = 0\<rparr>"

section \<open>Attribute reads and writes\<close>

lemma getattr_update_same: "getattr (AList.update k v self) k d = v"
  by (simp add: getattr_def update_conv')

lemma attr_update_same: "attr (AList.update k v self) k = Inr v"
  by (simp add: attr_def update_conv')

lemma getattr_update_other:
  "k \<noteq> k' \<Longrightarrow> getattr (AList.update k v self) k' d = getattr self k' d"
  by (simp add: getattr_def update_conv')

lemma attr_of_getattr:
  "getattr self k PNone \<noteq> PNone \<Longrightarrow> attr self k = Inr (getattr self k PNone)"
  by (simp add: getattr_def attr_def split: option.splits)

lemma dict_get_missing: "map_of d k = None \<Longrightarrow> dict_get d k dflt = dflt"
  by (simp add: dict_get_def)

lemma new_comment_eq: "new_comment = Inr (PObj Comment [])"
  by (simp add: new_comment_def construct_def bind_exn_def)

lemmas ctor_simps = construct_def bind_exn_def setattr_def Let_def

section \<open>Lazy relations: memoisation\<close>

lemma comments_cached:
  assumes "Submission_comments h self w = (Inr r, self', w')" and "r \<noteq> PNone"
  shows "Submission_comments h self' w' = (Inr r, self', w')"
proof (cases "getattr self ''_comments'' PNone = PNone")
  case True
  with assms have "self' = AList.update ''_comments'' r self"
    by (auto simp: Submission_comments_def Let_def attr_update_same
        split: if_splits prod.splits sum.splits)
  with assms(2) show ?thesis
    by (simp add: Submission_comments_def getattr_update_same attr_update_same)
next
  case False
  with assms have "self' = self" "w' = w" "attr self ''_comments'' = Inr r"
    by (auto simp: Submission_comments_def)
  with False show ?thesis
    by (simp add: Submission_comments_def)
qed

lemma posts_cached:
  assumes "Subverse_posts h self w = (Inr r, self', w')" and "r \<noteq> PNone"
  shows "Subverse_posts h self' w' = (Inr r, self', w')"
proof (cases "getattr self ''_posts'' PNone = PNone")
  case True
  with assms have "self' = AList.update ''_posts'' r self"
    by (auto simp: Subverse_posts_def Let_def attr_update_same
        split: if_splits prod.splits sum.splits)
  with assms(2) show ?thesis
    by (simp add: Subverse_posts_def getattr_update_same attr_update_same)
next
  case False
  with assms have "self' = self" "w' = w" "attr self ''_posts'' = Inr r"
    by (auto simp: Subverse_posts_def)
  with False show ?thesis
    by (simp add: Subverse_posts_def)
qed

lemma parent_cached:
  assumes "Comment_parent h self w = (Inr r, self', w')" and "r \<noteq> PNone"
  shows "Comment_parent h self' w' = (Inr r, self', w')"
proof (cases "getattr self ''_parent'' PNone = PNone")
  case True
  with assms have "self' = AList.update ''_parent'' r self"
    by (auto simp: Comment_parent_def Let_def attr_update_same new_comment_eq
        split: if_splits prod.splits sum.splits)
  with assms(2) show ?thesis
    by (simp add: Comment_parent_def getattr_update_same attr_update_same)
next
  case False
  with assms have "self' = self" "w' = w" "attr self ''_parent'' = Inr r"
    by (auto simp: Comment_parent_def)
  with False show ?thesis
    by (simp add: Comment_parent_def)
qed

lemma children_not_none:
  assumes "Comment_children h self w = (Inr r, self', w')"
  shows "r \<noteq> PNone"
proof (cases "getattr self ''_children'' PNone = PNone")
  case True
  with assms show ?thesis
    by (auto simp: Comment_children_def Let_def attr_update_same
        split: if_splits prod.splits sum.splits)
next
  case False
  with assms show ?thesis
    by (auto simp: Comment_children_def attr_of_getattr)
qed

lemma children_cached:
  assumes "Comment_children h self w = (Inr r, self', w')"
  shows "Comment_children h self' w' = (Inr r, self', w')"
proof (cases "getattr self ''_children'' PNone = PNone")
  case True
  with assms have "self' = AList.update ''_children'' r self"
    by (auto simp: Comment_children_def Let_def attr_update_same
        split: if_splits prod.splits sum.splits)
  with children_not_none[OF assms] show ?thesis
    by (simp add: Comment_children_def getattr_update_same attr_update_same)
next
  case False
  with assms have "self' = self" "w' = w" "attr self ''_children'' = Inr r"
    by (auto simp: Comment_children_def)
  with False show ?thesis
    by (simp add: Comment_children_def)
qed

text \<open>
  Claim C1, as amended. When an access to \<^verbatim>\<open>Submission.comments\<close>, \<^verbatim>\<open>Subverse.posts\<close> or
  \<^verbatim>\<open>Comment.parent\<close> returns a result other than \<^verbatim>\<open>None\<close>, and when an access to
  \<^verbatim>\<open>Comment.children\<close> returns at all, the next access to the same relation returns the
  same result, leaves the entity as it is and leaves the world as it is: the handle is
  not invoked again.
\<close>

theorem lazy_relation_cached:
  "(Submission_comments h self w = (Inr r, self', w') \<and> r \<noteq> PNone \<longrightarrow>
      Submission_comments h self' w' = (Inr r, self', w'))
   \<and> (Subverse_posts h self w = (Inr r, self', w') \<and> r \<noteq> PNone \<longrightarrow>
      Subverse_posts h self' w' = (Inr r, self', w'))
   \<and> (Comment_parent h self w = (Inr r, self', w') \<and> r \<noteq> PNone \<longrightarrow>
      Comment_parent h self' w' = (Inr r, self', w'))
   \<and> (Comment_children h self w = (Inr r, self', w') \<longrightarrow>
      Comment_children h self' w' = (Inr r, self', w'))"
  using comments_cached[of h self w r self' w'] posts_cached[of h self w r self' w']
    parent_cached[of h self w r self' w'] children_cached[of h self w r self' w']
  by blast

lemma ex_first_comments:
  "Submission_comments ex_handle ex_submission ex_world =
     (Inr (PList ex_comments),
      [(''post_id'', PInt 7), (''subverse'', PStr ''pics''), (''voat'', PVoat 0),
       (''_comments'', PList ex_comments)],
      \<lparr>calls = [(PVoat 0, FetchComments (PInt 7) (PStr ''pics''))], st = 1\<rparr>)"
  by (simp add: Submission_comments_def ex_submission_def ex_world_def invoke_def getattr_def
      attr_def)

lemma ex_first_posts:
  "Subverse_posts ex_handle ex_subverse ex_world =
     (Inr (PList [PObj Submission [(''post_id'', PInt 7)]]),
      [(''name'', PStr ''pics''), (''voat'', PVoat 0),
       (''_posts'', PList [PObj Submission [(''post_id'', PInt 7)]])],
      \<lparr>calls = [(PVoat 0, GetSubversePosts (PStr ''pics''))], st = 1\<rparr>)"
  by (simp add: Subverse_posts_def ex_subverse_def ex_world_def invoke_def getattr_def attr_def)

lemma ex_first_parent:
  "Comment_parent ex_handle ex_comment ex_world =
     (Inr (PObj Comment [(''comment_id'', PInt 9)]),
      [(''voat'', PVoat 0), (''comment_id'', PInt 1), (''parent_id'', PInt 9),
       (''submission_id'', PInt 7), (''subverse'', PStr ''pics''),
       (''_parent'', PObj Comment [(''comment_id'', PInt 9)])],
      \<lparr>calls = [(PVoat 0, GetComment (PInt 9))], st = 1\<rparr>)"
  by (simp add: Comment_parent_def ex_comment_def ex_world_def invoke_def getattr_def attr_def)

lemma ex_select_children:
  "select_children ex_comment ex_comments =
     Inr [PObj Comment [(''comment_id'', PInt 2), (''parent_id'', PInt 1)],
          PObj Comment [(''comment_id'', PInt 4), (''parent_id'', PInt 1)]]"
  by (simp add: ex_comment_def ex_comments_def bind_exn_def attr_def getattr_def)

lemma ex_first_children:
  "Comment_children ex_handle ex_comment ex_world =
     (Inr (PList [PObj Comment [(''comment_id'', PInt 2), (''parent_id'', PInt 1)],
                  PObj Comment [(''comment_id'', PInt 4), (''parent_id'', PInt 1)]]),
      [(''voat'', PVoat 0), (''comment_id'', PInt 1), (''parent_id'', PInt 9),
       (''submission_id'', PInt 7), (''subverse'', PStr ''pics''),
       (''_children'', PList [PObj Comment [(''comment_id'', PInt 2), (''parent_id'', PInt 1)],
                  PObj Comment [(''comment_id'', PInt 4), (''parent_id'', PInt 1)]])],
      \<lparr>calls = [(PVoat 0, FetchComments (PInt 7) (PStr ''pics''))], st = 1\<rparr>)"
proof -
  have "getattr ex_comment ''_children'' PNone = PNone"
    "getattr ex_comment ''submission_id'' PNone = PInt 7"
    "getattr ex_comment ''voat'' PNone = PVoat 0"
    "getattr ex_comment ''subverse'' PNone = PStr ''pics''"
    by (simp_all add: ex_comment_def getattr_def)
  then show ?thesis
    by (simp add: Comment_children_def ex_world_def invoke_def bind_exn_def ex_select_children
        attr_update_same)
      (simp add: ex_comment_def)
qed

theorem lazy_relation_cached_witness:
  "Submission_comments ex_handle
      [(''post_id'', PInt 7), (''subverse'', PStr ''pics''), (''voat'', PVoat 0),
       (''_comments'', PList ex_comments)]
      \<lparr>calls = [(PVoat 0, FetchComments (PInt 7) (PStr ''pics''))], st = 1\<rparr>
    = (Inr (PList ex_comments),
      [(''post_id'', PInt 7), (''subverse'', PStr ''pics''), (''voat'', PVoat 0),
       (''_comments'', PList ex_comments)],
      \<lparr>calls = [(PVoat 0, FetchComments (PInt 7) (PStr ''pics''))], st = 1\<rparr>)
   \<and> Subverse_posts ex_handle
      [(''name'', PStr ''pics''), (''voat'', PVoat 0),
       (''_posts'', PList [PObj Submission [(''post_id'', PInt 7)]])]
      \<lparr>calls = [(PVoat 0, GetSubversePosts (PStr ''pics''))], st = 1\<rparr>
    = (Inr (PList [PObj Submission [(''post_id'', PInt 7)]]),
      [(''name'', PStr ''pics''), (''voat'', PVoat 0),
       (''_posts'', PList [PObj Submission [(''post_id'', PInt 7)]])],
      \<lparr>calls = [(PVoat 0, GetSubversePosts (PStr ''pics''))], st = 1\<rparr>)
   \<and> Comment_parent ex_handle
      [(''voat'', PVoat 0), (''comment_id'', PInt 1), (''parent_id'', PInt 9),
       (''submission_id'', PInt 7), (''subverse'', PStr ''pics''),
       (''_parent'', PObj Comment [(''comment_id'', PInt 9)])]
      \<lparr>calls = [(PVoat 0, GetComment (PInt 9))], st = 1\<rparr>
    = (Inr (PObj Comment [(''comment_id'', PInt 9)]),
      [(''voat'', PVoat 0), (''comment_id'', PInt 1), (''parent_id'', PInt 9),
       (''submission_id'', PInt 7), (''subverse'', PStr ''pics''),
       (''_parent'', PObj Comment [(''comment_id'', PInt 9)])],
      \<lparr>calls = [(PVoat 0, GetComment (PInt 9))], st = 1\<rparr>)
   \<and> Comment_children ex_handle
      [(''voat'', PVoat 0), (''comment_id'', PInt 1), (''parent_id'', PInt 9),
       (''submission_id'', PInt 7), (''subverse'', PStr ''pics''),
       (''_children'', PList [PObj Comment [(''comment_id'', PInt 2), (''parent_id'', PInt 1)],
                  PObj Comment [(''comment_id'', PInt 4), (''parent_id'', PInt 1)]])]
      \<lparr>calls = [(PVoat 0, FetchComments (PInt 7) (PStr ''pics''))], st = 1\<rparr>
    = (Inr (PList [PObj Comment [(''comment_id'', PInt 2), (''parent_id'', PInt 1)],
                  PObj Comment [(''comment_id'', PInt 4), (''parent_id'', PInt 1)]]),
      [(''voat'', PVoat 0), (''comment_id'', PInt 1), (''parent_id'', PInt 9),
       (''submission_id'', PInt 7), (''subverse'', PStr ''pics''),
       (''_children'', PList [PObj Comment [(''comment_id'', PInt 2), (''parent_id'', PInt 1)],
                  PObj Comment [(''comment_id'', PInt 4), (''parent_id'', PInt 1)]])],
      \<lparr>calls = [(PVoat 0, FetchComments (PInt 7) (PStr ''pics''))], st = 1\<rparr>)"
proof -
  note c = lazy_relation_cached
  have "PList ex_comments \<noteq> PNone"
    and "PList [PObj Submission [(''post_id'', PInt 7)]] \<noteq> PNone"
    and "PObj Comment [(''comment_id'', PInt 9)] \<noteq> PNone"
    by simp_all
  with c[THEN conjunct1, rule_format, OF conjI, OF ex_first_comments]
    c[THEN conjunct2, THEN conjunct1, rule_format, OF conjI, OF ex_first_posts]
    c[THEN conjunct2, THEN conjunct2, THEN conjunct1, rule_format, OF conjI, OF ex_first_parent]
    c[THEN conjunct2, THEN conjunct2, THEN conjunct2, rule_format, OF ex_first_children]
  show ?thesis by blast
qed

text \<open>
  The claim as stated fails when a fetch returns \<^verbatim>\<open>None\<close>, the value that marks a
  relation as unresolved: the first access to \<^verbatim>\<open>posts\<close> returns \<^verbatim>\<open>None\<close>, the second
  invokes the handle again and returns another result.
\<close>

theorem lazy_refetch_counterexample:
  "Subverse_posts none_first_handle ex_subverse ex_world =
     (Inr PNone,
      [(''name'', PStr ''pics''), (''voat'', PVoat 0), (''_posts'', PNone)],
      \<lparr>calls = [(PVoat 0, GetSubversePosts (PStr ''pics''))], st = 1\<rparr>)
   \<and> Subverse_posts none_first_handle
      [(''name'', PStr ''pics''), (''voat'', PVoat 0), (''_posts'', PNone)]
      \<lparr>calls = [(PVoat 0, GetSubversePosts (PStr ''pics''))], st = 1\<rparr> =
     (Inr (PList []),
      [(''name'', PStr ''pics''), (''voat'', PVoat 0), (''_posts'', PList [])],
      \<lparr>calls = [(PVoat 0, GetSubversePosts (PStr ''pics'')),
                 (PVoat 0, GetSubversePosts (PStr ''pics''))], st = 2\<rparr>)"
  by (simp add: Subverse_posts_def none_first_handle_def ex_subverse_def ex_world_def invoke_def
      getattr_def attr_def)

section \<open>Comment.parent and Comment.children\<close>

text \<open>
  Claim C2. A comment whose \<^verbatim>\<open>_parent\<close> is unresolved, with a handle attached and a
  \<^verbatim>\<open>parent_id\<close> other than \<^verbatim>\<open>None\<close>: when the call of \<^verbatim>\<open>get_comment\<close> on the handle
  raises, whatever it raises, \<^verbatim>\<open>Comment.parent\<close> returns a comment without attributes
  instead of raising, and stores it.
\<close>

theorem parent_fetch_failure_placeholder:
  assumes "getattr self ''_parent'' PNone = PNone"
    and "getattr self ''voat'' PNone \<noteq> PNone"
    and "getattr self ''parent_id'' PNone \<noteq> PNone"
    and "fst (h (getattr self ''voat'' PNone)
               (GetComment (getattr self ''parent_id'' PNone)) (st w)) = Inl e"
  shows "fst (Comment_parent h self w) = Inr (PObj Comment [])
       \<and> fst (snd (Comment_parent h self w)) = AList.update ''_parent'' (PObj Comment []) self"
  using assms
  by (auto simp: Comment_parent_def Let_def invoke_def attr_update_same new_comment_eq
      split: prod.splits sum.splits)

theorem parent_fetch_failure_placeholder_witness:
  "fst (Comment_parent ex_handle ex_orphan ex_world) = Inr (PObj Comment [])
   \<and> fst (snd (Comment_parent ex_handle ex_orphan ex_world)) =
       [(''voat'', PVoat 0), (''comment_id'', PInt 5), (''parent_id'', PInt 3),
        (''submission_id'', PInt 7), (''_parent'', PObj Comment [])]"
proof -
  have a: "getattr ex_orphan ''_parent'' PNone = PNone"
    and b: "getattr ex_orphan ''voat'' PNone \<noteq> PNone"
    and c: "getattr ex_orphan ''parent_id'' PNone \<noteq> PNone"
    and d: "fst (ex_handle (getattr ex_orphan ''voat'' PNone)
               (GetComment (getattr ex_orphan ''parent_id'' PNone)) (st ex_world))
            = Inl (OtherError ''not found'')"
    by (simp_all add: ex_orphan_def getattr_def)
  have u: "AList.update ''_parent'' (PObj Comment []) ex_orphan =
       [(''voat'', PVoat 0), (''comment_id'', PInt 5), (''parent_id'', PInt 3),
        (''submission_id'', PInt 7), (''_parent'', PObj Comment [])]"
    by (simp add: ex_orphan_def)
  from parent_fetch_failure_placeholder[of ex_orphan ex_handle ex_world
      "OtherError ''not found''"] a b c d u
  show ?thesis by simp
qed

text \<open>
  Claim C10. A comment whose \<^verbatim>\<open>parent_id\<close> is \<^verbatim>\<open>None\<close> (or missing), handle attached or
  not: as long as \<^verbatim>\<open>_parent\<close> is unresolved or holds the placeholder an earlier access
  stored, \<^verbatim>\<open>Comment.parent\<close> returns a comment without attributes, the world is unchanged
  (no call reaches the handle), and the same holds for the next access.
\<close>

theorem top_level_parent_no_fetch:
  assumes "getattr self ''parent_id'' PNone = PNone"
    and "getattr self ''_parent'' PNone = PNone
         \<or> getattr self ''_parent'' PNone = PObj Comment []"
  shows "fst (Comment_parent h self w) = Inr (PObj Comment [])
       \<and> snd (snd (Comment_parent h self w)) = w
       \<and> getattr (fst (snd (Comment_parent h self w))) ''_parent'' PNone = PObj Comment []
       \<and> getattr (fst (snd (Comment_parent h self w))) ''parent_id'' PNone = PNone"
  using assms
  by (auto simp: Comment_parent_def Let_def attr_update_same getattr_update_same
      getattr_update_other new_comment_eq attr_of_getattr)

theorem top_level_parent_no_fetch_witness:
  "fst (Comment_parent ex_handle ex_top_level ex_world) = Inr (PObj Comment [])
   \<and> snd (snd (Comment_parent ex_handle ex_top_level ex_world)) = ex_world
   \<and> getattr ex_top_level ''voat'' PNone = PVoat 0"
proof -
  have a: "getattr ex_top_level ''parent_id'' PNone = PNone"
    and b: "getattr ex_top_level ''_parent'' PNone = PNone
         \<or> getattr ex_top_level ''_parent'' PNone = PObj Comment []"
    and c: "getattr ex_top_level ''voat'' PNone = PVoat 0"
    by (simp_all add: ex_top_level_def getattr_def)
  from top_level_parent_no_fetch[OF a b, of ex_handle ex_world] c show ?thesis
    by simp
qed

lemma select_children_filter:
  "attr self ''comment_id'' = Inr cid \<Longrightarrow>
   select_children self cs =
     Inr (filter (\<lambda>i. py_eq (getattr_val i ''parent_id'' PNone) cid) cs)"
  by (induction cs) (simp_all add: bind_exn_def)

text \<open>
  Claim C9. A comment whose \<^verbatim>\<open>_children\<close> is unresolved, with a handle attached, a
  \<^verbatim>\<open>submission_id\<close> other than \<^verbatim>\<open>None\<close> and a \<^verbatim>\<open>comment_id\<close>: when \<^verbatim>\<open>fetch_comments\<close> on
  the handle, called with the submission id and the subverse, returns the list \<open>cs\<close>,
  \<^verbatim>\<open>Comment.children\<close> is the list of those elements of \<open>cs\<close> whose \<^verbatim>\<open>parent_id\<close> equals
  this comment's id, in the order of \<open>cs\<close>, and one call has reached the handle.
\<close>

theorem children_are_matching_comments:
  assumes "getattr self ''_children'' PNone = PNone"
    and "getattr self ''voat'' PNone \<noteq> PNone"
    and "getattr self ''submission_id'' PNone \<noteq> PNone"
    and "h (getattr self ''voat'' PNone)
           (FetchComments (getattr self ''submission_id'' PNone)
                          (getattr self ''subverse'' PNone)) (st w)
         = (Inr (PList cs), s')"
    and "attr self ''comment_id'' = Inr cid"
  shows "fst (Comment_children h self w) =
           Inr (PList (filter (\<lambda>i. py_eq (getattr_val i ''parent_id'' PNone) cid) cs))
       \<and> snd (snd (Comment_children h self w)) =
           \<lparr>calls = calls w @ [(getattr self ''voat'' PNone,
               FetchComments (getattr self ''submission_id'' PNone)
                             (getattr self ''subverse'' PNone))], st = s'\<rparr>"
  using assms
  by (simp add: Comment_children_def Let_def invoke_def attr_update_same bind_exn_def
      select_children_filter)

theorem children_are_matching_comments_witness:
  "fst (Comment_children ex_handle ex_comment ex_world) =
     Inr (PList [PObj Comment [(''comment_id'', PInt 2), (''parent_id'', PInt 1)],
                 PObj Comment [(''comment_id'', PInt 4), (''parent_id'', PInt 1)]])
   \<and> snd (snd (Comment_children ex_handle ex_comment ex_world)) =
       \<lparr>calls = [(PVoat 0, FetchComments (PInt 7) (PStr ''pics''))], st = 1\<rparr>"
proof -
  have a: "getattr ex_comment ''_children'' PNone = PNone"
    and b: "getattr ex_comment ''voat'' PNone \<noteq> PNone"
    and c: "getattr ex_comment ''submission_id'' PNone \<noteq> PNone"
    and d: "ex_handle (getattr ex_comment ''voat'' PNone)
           (FetchComments (getattr ex_comment ''submission_id'' PNone)
                          (getattr ex_comment ''subverse'' PNone)) (st ex_world)
         = (Inr (PList ex_comments), 1)"
    and e: "attr ex_comment ''comment_id'' = Inr (PInt 1)"
    by (simp_all add: ex_comment_def ex_world_def getattr_def attr_def)
  have f: "filter (\<lambda>i. py_eq (getattr_val i ''parent_id'' PNone) (PInt 1)) ex_comments =
     [PObj Comment [(''comment_id'', PInt 2), (''parent_id'', PInt 1)],
      PObj Comment [(''comment_id'', PInt 4), (''parent_id'', PInt 1)]]"
    by (simp add: ex_comments_def getattr_def)
  have g: "getattr ex_comment ''voat'' PNone = PVoat 0"
    "getattr ex_comment ''submission_id'' PNone = PInt 7"
    "getattr ex_comment ''subverse'' PNone = PStr ''pics''"
    "calls ex_world = []"
    by (simp_all add: ex_comment_def ex_world_def getattr_def)
  from children_are_matching_comments[of ex_comment ex_handle ex_world ex_comments 1
      "PInt 1"] a b c d e f g
  show ?thesis by simp
qed

section \<open>Entities without a handle\<close>

text \<open>
  Claim C5. An entity whose \<^verbatim>\<open>voat\<close> attribute is \<^verbatim>\<open>None\<close> or missing, at the first access
  to a relation (its slot is unresolved): \<^verbatim>\<open>Submission.comments\<close>, \<^verbatim>\<open>Subverse.posts\<close> and
  \<^verbatim>\<open>Comment.children\<close> return the empty list, \<^verbatim>\<open>Comment.parent\<close> returns a comment without
  attributes; the result is stored in the slot and the world is unchanged, so no call
  reaches any handle.
\<close>

theorem no_handle_defaults:
  "(getattr self ''voat'' PNone = PNone \<and> getattr self ''_comments'' PNone = PNone \<longrightarrow>
      Submission_comments h self w =
        (Inr (PList []), AList.update ''_comments'' (PList []) self, w))
   \<and> (getattr self ''voat'' PNone = PNone \<and> getattr self ''_posts'' PNone = PNone \<longrightarrow>
      Subverse_posts h self w =
        (Inr (PList []), AList.update ''_posts'' (PList []) self, w))
   \<and> (getattr self ''voat'' PNone = PNone \<and> getattr self ''_parent'' PNone = PNone \<longrightarrow>
      Comment_parent h self w =
        (Inr (PObj Comment []), AList.update ''_parent'' (PObj Comment []) self, w))
   \<and> (getattr self ''voat'' PNone = PNone \<and> getattr self ''_children'' PNone = PNone \<longrightarrow>
      Comment_children h self w =
        (Inr (PList []), AList.update ''_children'' (PList []) self, w))"
  by (simp add: Submission_comments_def Subverse_posts_def Comment_parent_def
      Comment_children_def Let_def attr_update_same new_comment_eq)

theorem no_handle_defaults_witness:
  "Submission_comments ex_handle [(''post_id'', PInt 7), (''voat'', PNone)] ex_world =
     (Inr (PList []),
      [(''post_id'', PInt 7), (''voat'', PNone), (''_comments'', PList [])], ex_world)
   \<and> Subverse_posts ex_handle [(''name'', PStr ''pics'')] ex_world =
     (Inr (PList []), [(''name'', PStr ''pics''), (''_posts'', PList [])], ex_world)
   \<and> Comment_parent ex_handle [(''voat'', PNone), (''parent_id'', PInt 9)] ex_world =
     (Inr (PObj Comment []),
      [(''voat'', PNone), (''parent_id'', PInt 9), (''_parent'', PObj Comment [])], ex_world)
   \<and> Comment_children ex_handle [(''voat'', PNone), (''submission_id'', PInt 7)] ex_world =
     (Inr (PList []),
      [(''voat'', PNone), (''submission_id'', PInt 7), (''_children'', PList [])], ex_world)"
proof -
  note d = no_handle_defaults
  have a: "getattr [(''post_id'', PInt 7), (''voat'', PNone)] ''voat'' PNone = PNone
      \<and> getattr [(''post_id'', PInt 7), (''voat'', PNone)] ''_comments'' PNone = PNone"
    and b: "getattr [(''name'', PStr ''pics'')] ''voat'' PNone = PNone
      \<and> getattr [(''name'', PStr ''pics'')] ''_posts'' PNone = PNone"
    and c: "getattr [(''voat'', PNone), (''parent_id'', PInt 9)] ''voat'' PNone = PNone
      \<and> getattr [(''voat'', PNone), (''parent_id'', PInt 9)] ''_parent'' PNone = PNone"
    and e: "getattr [(''voat'', PNone), (''submission_id'', PInt 7)] ''voat'' PNone = PNone
      \<and> getattr [(''voat'', PNone), (''submission_id'', PInt 7)] ''_children'' PNone = PNone"
    by (simp_all add: getattr_def)
  from d[THEN conjunct1, rule_format, OF a, of ex_handle ex_world]
    d[THEN conjunct2, THEN conjunct1, rule_format, OF b, of ex_handle ex_world]
    d[THEN conjunct2, THEN conjunct2, THEN conjunct1, rule_format, OF c, of ex_handle ex_world]
    d[THEN conjunct2, THEN conjunct2, THEN conjunct2, rule_format, OF e, of ex_handle ex_world]
  show ?thesis by simp
qed

section \<open>AuthToken: construction and expiry\<close>

lemma init_fields:
  assumes "AuthToken_init t0 u tok ty e = Inr a"
  shows "gotten_at a = t0 \<and> token_priv a = tok \<and> isinstance_int (expiry_date a)"
  using assms
  by (auto simp: AuthToken_init_def bind_exn_def split: sum.splits if_splits)

text \<open>What the constructor does with values that are not strings of digits, and with
  strings of decimal digits.\<close>

lemma bad_expiry_iff:
  "AuthToken_init now u tok ty e = Inl VoatBadExpiry \<longleftrightarrow>
     \<not> isinstance_int e \<and> \<not> (\<exists>s. e = PStr s \<and> isdigit s)"
  by (cases e)
    (auto simp: AuthToken_init_def bind_exn_def py_int_def isinstance_int_def split: if_splits)

lemma decimal_string_parsed:
  assumes "s \<noteq> []" and "list_all is_decimal_char s"
  shows "AuthToken_init now u tok ty (PStr s) =
           Inr \<lparr>username = u, expiry_date = PInt (decimal_value s), gotten_at = now,
                 token_type = ty, token_priv = tok\<rparr>"
proof -
  from assms have "isdigit s"
    by (simp add: isdigit_def is_digit_char_def list_all_iff)
  with assms show ?thesis
    by (simp add: AuthToken_init_def bind_exn_def py_int_def isinstance_int_def)
qed

lemma integer_expiry_stored:
  "AuthToken_init now u tok ty (PInt n) =
     Inr \<lparr>username = u, expiry_date = PInt n, gotten_at = now, token_type = ty,
           token_priv = tok\<rparr>"
  by (simp add: AuthToken_init_def bind_exn_def isinstance_int_def)

subsection \<open>The double arithmetic and the numbers it stands for\<close>

lemma nbits_upper: "m < 2 ^ nbits m"
proof (induction m rule: nbits.induct)
  case (1 m)
  show ?case
  proof (cases "m \<le> 0")
    case True
    then show ?thesis by (simp add: nbits.simps)
  next
    case False
    with 1 have "m div 2 < 2 ^ nbits (m div 2)" by simp
    then have "m < 2 * 2 ^ nbits (m div 2)" by linarith
    with False show ?thesis by (simp add: nbits.simps[of m])
  qed
qed

lemma nbits_lower: "0 < m \<Longrightarrow> 2 ^ (nbits m - 1) \<le> m"
proof (induction m rule: nbits.induct)
  case (1 m)
  show ?case
  proof (cases "m div 2 \<le> 0")
    case True
    then have "nbits (m div 2) = 0" by (subst nbits.simps) simp
    with 1 have "nbits m = 1" by (subst nbits.simps) simp
    with 1 show ?thesis by simp
  next
    case False
    with 1 have ih: "2 ^ (nbits (m div 2) - 1) \<le> m div 2" by simp
    from False have "0 < nbits (m div 2)" by (simp add: nbits.simps[of "m div 2"])
    then have "(2::int) ^ nbits (m div 2) = 2 * 2 ^ (nbits (m div 2) - 1)"
      by (cases "nbits (m div 2)") simp_all
    with ih have "2 ^ nbits (m div 2) \<le> m" by linarith
    with 1 show ?thesis by (simp add: nbits.simps[of m])
  qed
qed

lemma nbits_le_53: "\<bar>m\<bar> < 2 ^ 53 \<Longrightarrow> nbits \<bar>m\<bar> \<le> 53"
proof (rule ccontr)
  assume a: "\<bar>m\<bar> < 2 ^ 53" and "\<not> nbits \<bar>m\<bar> \<le> 53"
  then have k: "54 \<le> nbits \<bar>m\<bar>" by simp
  then have pos: "0 < \<bar>m\<bar>" by (auto simp: nbits.simps[of "\<bar>m\<bar>"] split: if_splits)
  from k have "(2::int) ^ 53 \<le> 2 ^ (nbits \<bar>m\<bar> - 1)"
    by (intro power_increasing) simp_all
  with nbits_lower[OF pos] a show False by linarith
qed

lemma dval_align:
  assumes "e \<le> snd a"
  shows "dval a = real_of_int (fst a * 2 ^ nat (snd a - e)) * 2 powi e"
proof -
  define k where "k = nat (snd a - e)"
  with assms have "snd a = int k + e" by simp
  then have "(2::real) powi (snd a) = 2 powi (int k + e)" by simp
  also have "\<dots> = 2 powi (int k) * 2 powi e"
    by (rule power_int_add) simp
  also have "\<dots> = 2 ^ k * 2 powi e"
    by (simp only: power_int_of_nat)
  finally show ?thesis by (simp add: dval_def k_def)
qed

lemma dbl_ge_dval: "dbl_ge a b \<longleftrightarrow> dval b \<le> dval a"
proof -
  let ?e = "min (snd a) (snd b)"
  have a: "dval a = real_of_int (fst a * 2 ^ nat (snd a - ?e)) * 2 powi ?e"
    by (rule dval_align) simp
  have b: "dval b = real_of_int (fst b * 2 ^ nat (snd b - ?e)) * 2 powi ?e"
    by (rule dval_align) simp
  have p: "(0::real) < 2 powi ?e" by simp
  have "dval b \<le> dval a \<longleftrightarrow>
      real_of_int (fst b * 2 ^ nat (snd b - ?e)) \<le> real_of_int (fst a * 2 ^ nat (snd a - ?e))"
    unfolding a b using p by (simp only: mult_le_cancel_right_pos)
  then show ?thesis
    by (simp add: dbl_ge_def Let_def del: of_int_mult of_int_power)
qed

lemma float_of_int_exact: "\<bar>n\<bar> < 2 ^ 53 \<Longrightarrow> float_of_int n = Inr (n, 0)"
proof -
  assume a: "\<bar>n\<bar> < 2 ^ 53"
  then have "round53 n 0 = (n, 0)"
    by (simp add: round53_def Let_def nbits_le_53)
  moreover from a have "\<not> too_big (n, 0)"
    by (simp add: too_big_def)
  ultimately show ?thesis by (simp add: float_of_int_def)
qed

lemma float_add_exact:
  assumes "sum_is_exact a b" and "min (snd a) (snd b) \<le> 971"
  shows "float_add a b = Fin (aligned_sum a b, min (snd a) (snd b))"
    and "dval (aligned_sum a b, min (snd a) (snd b)) = dval a + dval b"
proof -
  let ?e = "min (snd a) (snd b)"
  let ?M = "aligned_sum a b"
  from assms(1) have k: "nbits \<bar>?M\<bar> \<le> 53" by (simp add: sum_is_exact_def)
  have r: "round53 ?M ?e = (?M, ?e)"
    using k by (simp add: round53_def Let_def)
  have "\<bar>?M\<bar> < 2 ^ nbits \<bar>?M\<bar>" by (rule nbits_upper)
  also have "\<dots> \<le> 2 ^ 53" using k by (intro power_increasing) simp_all
  finally have m: "\<bar>?M\<bar> < 2 ^ 53" .
  have nb: "\<not> too_big (?M, ?e)"
  proof (cases "0 \<le> ?e")
    case False
    then show ?thesis by (auto simp: too_big_def)
  next
    case True
    with assms(2) have "nat ?e \<le> 971" by simp
    then have p: "(2::int) ^ nat ?e \<le> 2 ^ 971" by (intro power_increasing) simp_all
    from m p have "\<bar>?M\<bar> * 2 ^ nat ?e < 2 ^ 53 * 2 ^ 971"
      by (rule mult_less_le_imp_less) simp_all
    also have "(2::int) ^ 53 * 2 ^ 971 = 2 ^ 1024"
      by (simp only: power_add[symmetric]) simp
    finally show ?thesis unfolding too_big_def by simp
  qed
  from r nb show "float_add a b = Fin (?M, ?e)"
    by (simp add: float_add_def Let_def)
  have a: "dval a = real_of_int (fst a * 2 ^ nat (snd a - ?e)) * 2 powi ?e"
    by (rule dval_align) simp
  have b: "dval b = real_of_int (fst b * 2 ^ nat (snd b - ?e)) * 2 powi ?e"
    by (rule dval_align) simp
  show "dval (?M, ?e) = dval a + dval b"
    unfolding a b by (simp add: dval_def aligned_sum_def Let_def algebra_simps)
qed

lemma float_ge_exact_sum:
  assumes "\<bar>n\<bar> < 2 ^ 53" and "sum_is_exact t0 (n, 0)"
  shows "float_of_int n = Inr (n, 0)"
    and "float_ge now (float_add t0 (n, 0)) \<longleftrightarrow> dval t0 + real_of_int n \<le> dval now"
proof -
  show "float_of_int n = Inr (n, 0)"
    using assms(1) by (rule float_of_int_exact)
  have e: "min (snd t0) (snd (n, 0)) \<le> 971" by simp
  have "dval (n, 0) = real_of_int n" by (simp add: dval_def)
  with float_add_exact[OF assms(2) e] show
    "float_ge now (float_add t0 (n, 0)) \<longleftrightarrow> dval t0 + real_of_int n \<le> dval now"
    by (simp add: dbl_ge_dval)
qed

text \<open>
  Claim C3, as amended. For a token built by the constructor at clock reading \<open>t0\<close>, the
  stored expiry stands for an integer \<open>n\<close>. When \<open>n\<close> converts to a double \<open>x\<close>, reading
  the token at clock reading \<open>now\<close> raises the expired-token error exactly when \<open>now\<close> is
  at or past the floating point sum of \<open>t0\<close> and \<open>x\<close>, and before that instant it returns
  the token value the constructor was given. When \<open>\<bar>n\<bar> < 2 ^ 53\<close> and the exact sum has at
  most 53 significant bits, nothing is rounded, and that instant is \<open>t0 + n\<close> seconds.
\<close>

theorem token_expiry_float:
  assumes "AuthToken_init t0 u tok ty e = Inr a"
  shows "gotten_at a = t0
       \<and> (\<exists>n. int_of (expiry_date a) = Some n)
       \<and> (\<forall>n x. int_of (expiry_date a) = Some n \<and> float_of_int n = Inr x \<longrightarrow>
             (AuthToken_token now a = Inl VoatExpiredToken
                \<longleftrightarrow> float_ge now (float_add t0 x))
           \<and> (\<not> float_ge now (float_add t0 x) \<longrightarrow> AuthToken_token now a = Inr tok))
       \<and> (\<forall>n. int_of (expiry_date a) = Some n \<and> \<bar>n\<bar> < 2 ^ 53 \<and> sum_is_exact t0 (n, 0) \<longrightarrow>
             (AuthToken_token now a = Inl VoatExpiredToken
                \<longleftrightarrow> dval t0 + real_of_int n \<le> dval now)
           \<and> (dval now < dval t0 + real_of_int n \<longrightarrow> AuthToken_token now a = Inr tok))"
proof -
  from init_fields[OF assms] have g: "gotten_at a = t0" and t: "token_priv a = tok"
    and i: "\<exists>n. int_of (expiry_date a) = Some n"
    by (auto simp: isinstance_int_def)
  have 1: "(AuthToken_token now a = Inl VoatExpiredToken \<longleftrightarrow> float_ge now (float_add t0 x))
           \<and> (\<not> float_ge now (float_add t0 x) \<longrightarrow> AuthToken_token now a = Inr tok)"
    if "int_of (expiry_date a) = Some n" and "float_of_int n = Inr x" for n x
    using that g t by (simp add: AuthToken_token_def bind_exn_def)
  have 2: "(AuthToken_token now a = Inl VoatExpiredToken
                \<longleftrightarrow> dval t0 + real_of_int n \<le> dval now)
           \<and> (dval now < dval t0 + real_of_int n \<longrightarrow> AuthToken_token now a = Inr tok)"
    if n: "int_of (expiry_date a) = Some n" and b: "\<bar>n\<bar> < 2 ^ 53"
      and s: "sum_is_exact t0 (n, 0)" for n
    using 1[OF n float_ge_exact_sum(1)[OF b s]] float_ge_exact_sum(2)[OF b s, of now]
    by auto
  from g i 1 2 show ?thesis by blast
qed

lemma ex_token_init:
  "AuthToken_init (201, - 1) (PStr ''bob'') (PStr ''secret'') (PStr ''bearer'') (PStr ''3600'')
     = Inr \<lparr>username = PStr ''bob'', expiry_date = PInt 3600, gotten_at = (201, - 1),
            token_type = PStr ''bearer'', token_priv = PStr ''secret''\<rparr>"
  by (simp add: AuthToken_init_def bind_exn_def isdigit_def is_digit_char_def
      is_decimal_char_def py_int_def decimal_value_def isinstance_int_def)

lemma ex_sum_is_exact: "sum_is_exact (201, - 1) (3600, 0)"
  by code_simp

lemma ex_float_of_int: "float_of_int 3600 = Inr (3600, 0)"
  by (rule float_of_int_exact) simp

lemma ex_float_ge:
  "\<not> float_ge (3700, 0) (float_add (201, - 1) (3600, 0))"
  "float_ge (7401, - 1) (float_add (201, - 1) (3600, 0))"
  by code_simp+

theorem token_expiry_float_witness:
  "AuthToken_init (201, - 1) (PStr ''bob'') (PStr ''secret'') (PStr ''bearer'') (PStr ''3600'')
     = Inr \<lparr>username = PStr ''bob'', expiry_date = PInt 3600, gotten_at = (201, - 1),
            token_type = PStr ''bearer'', token_priv = PStr ''secret''\<rparr>
   \<and> AuthToken_token (3700, 0)
       \<lparr>username = PStr ''bob'', expiry_date = PInt 3600, gotten_at = (201, - 1),
            token_type = PStr ''bearer'', token_priv = PStr ''secret''\<rparr> = Inr (PStr ''secret'')
   \<and> AuthToken_token (7401, - 1)
       \<lparr>username = PStr ''bob'', expiry_date = PInt 3600, gotten_at = (201, - 1),
            token_type = PStr ''bearer'', token_priv = PStr ''secret''\<rparr> = Inl VoatExpiredToken
   \<and> (AuthToken_token (7401, - 1)
       \<lparr>username = PStr ''bob'', expiry_date = PInt 3600, gotten_at = (201, - 1),
            token_type = PStr ''bearer'', token_priv = PStr ''secret''\<rparr> = Inl VoatExpiredToken
      \<longleftrightarrow> dval (201, - 1) + real_of_int 3600 \<le> dval (7401, - 1))"
proof -
  let ?a = "\<lparr>username = PStr ''bob'', expiry_date = PInt 3600, gotten_at = (201, - 1),
            token_type = PStr ''bearer'', token_priv = PStr ''secret''\<rparr>"
  have n: "int_of (expiry_date ?a) = Some 3600" by simp
  have b: "\<bar>3600::int\<bar> < 2 ^ 53" by simp
  note t1 = token_expiry_float[OF ex_token_init, of "(3700, 0)"]
  note t2 = token_expiry_float[OF ex_token_init, of "(7401, - 1)"]
  from t1 n ex_float_of_int ex_float_ge(1)
  have 1: "AuthToken_token (3700, 0) ?a = Inr (PStr ''secret'')" by blast
  from t2 n ex_float_of_int ex_float_ge(2)
  have 2: "AuthToken_token (7401, - 1) ?a = Inl VoatExpiredToken" by blast
  from t2 n b ex_sum_is_exact
  have 3: "AuthToken_token (7401, - 1) ?a = Inl VoatExpiredToken
      \<longleftrightarrow> dval (201, - 1) + real_of_int 3600 \<le> dval (7401, - 1)" by blast
  from ex_token_init 1 2 3 show ?thesis by blast
qed

text \<open>
  The claim as stated fails in two ways. A token acquired one tick after
  \<open>2 ^ 31 - 3600\<close> seconds with an expiry of 3600 seconds: the exact sum lies between two
  doubles and is rounded down to \<open>2 ^ 31\<close>, so at clock reading \<open>2 ^ 31\<close>, which is before
  \<open>gotten_at + expiry_date\<close>, the access already raises the expired-token error. And a token
  with the expiry \<open>10 ^ 400\<close>, which the constructor accepts: the access raises
  \<^verbatim>\<open>OverflowError\<close>, neither the expired-token error nor the token.
\<close>

lemma ex_rounded_sum: "float_add ex_gotten_at (3600, 0) = Fin (2 ^ 52, - 21)"
  by code_simp

lemma ex_rounded_expired:
  "AuthToken_token (2 ^ 31, 0)
     \<lparr>username = PStr ''bob'', expiry_date = PInt 3600, gotten_at = ex_gotten_at,
        token_type = PStr ''bearer'', token_priv = PStr ''secret''\<rparr> = Inl VoatExpiredToken"
proof -
  have "float_ge (2 ^ 31, 0) (Fin (2 ^ 52, - 21))" by code_simp
  then show ?thesis
    by (simp only: AuthToken_token_def AuthToken.simps int_of.simps option.case
        ex_float_of_int bind_exn_def sum.case ex_rounded_sum if_True)
qed

lemma ex_before_exact_sum:
  "dval (2 ^ 31, 0) < dval ex_gotten_at + real_of_int 3600"
  by (simp add: dval_def ex_gotten_at_def power_int_minus field_simps)

lemma ex_overflow: "float_of_int (10 ^ 400) = Inl OverflowError"
  by code_simp

lemma ex_overflow_access:
  "AuthToken_token (2 ^ 31, 0)
     \<lparr>username = PStr ''bob'', expiry_date = PInt (10 ^ 400), gotten_at = ex_gotten_at,
        token_type = PStr ''bearer'', token_priv = PStr ''secret''\<rparr> = Inl OverflowError"
  by (simp only: AuthToken_token_def AuthToken.simps int_of.simps option.case
      ex_overflow bind_exn_def sum.case)

theorem token_expiry_counterexample:
  "is_double ex_gotten_at \<and> is_double (2 ^ 31, 0)
   \<and> AuthToken_init ex_gotten_at (PStr ''bob'') (PStr ''secret'') (PStr ''bearer'') (PInt 3600)
     = Inr \<lparr>username = PStr ''bob'', expiry_date = PInt 3600, gotten_at = ex_gotten_at,
            token_type = PStr ''bearer'', token_priv = PStr ''secret''\<rparr>
   \<and> AuthToken_token (2 ^ 31, 0)
     \<lparr>username = PStr ''bob'', expiry_date = PInt 3600, gotten_at = ex_gotten_at,
        token_type = PStr ''bearer'', token_priv = PStr ''secret''\<rparr> = Inl VoatExpiredToken
   \<and> dval (2 ^ 31, 0) < dval ex_gotten_at + real_of_int 3600
   \<and> AuthToken_init ex_gotten_at (PStr ''bob'') (PStr ''secret'') (PStr ''bearer'')
       (PInt (10 ^ 400))
     = Inr \<lparr>username = PStr ''bob'', expiry_date = PInt (10 ^ 400), gotten_at = ex_gotten_at,
            token_type = PStr ''bearer'', token_priv = PStr ''secret''\<rparr>
   \<and> AuthToken_token (2 ^ 31, 0)
     \<lparr>username = PStr ''bob'', expiry_date = PInt (10 ^ 400), gotten_at = ex_gotten_at,
        token_type = PStr ''bearer'', token_priv = PStr ''secret''\<rparr> = Inl OverflowError"
proof -
  have d: "is_double ex_gotten_at" "is_double (2 ^ 31, 0)"
    by (simp_all add: is_double_def ex_gotten_at_def)
  from d integer_expiry_stored ex_rounded_expired ex_before_exact_sum ex_overflow_access
  show ?thesis by blast
qed

text \<open>
  Claim C4 at the one-character string U+00B2 (superscript two). \<^verbatim>\<open>isdigit\<close> accepts the
  string, so the constructor calls \<^verbatim>\<open>int\<close> on it, and \<^verbatim>\<open>int\<close> raises \<^verbatim>\<open>ValueError\<close>: the
  value is neither an integer nor a string that has an integer value, and the constructor
  raises an error that is not the bad-expiry error.
\<close>

theorem superscript_expiry_value_error:
  "AuthToken_init now u tok ty (PStr [CHR 0xB2]) = Inl ValueError"
  by (simp add: AuthToken_init_def bind_exn_def isdigit_def is_digit_char_def
      is_decimal_char_def py_int_def)

section \<open>The factories: defaults and karma\<close>

lemma Subverse_from_dict_eq:
  "Subverse_from_dict js v = Inr
     [(''title'', dict_get js ''title'' (PStr '''')),
      (''name'', dict_get js ''name'' (PStr '''')),
      (''nsfw'', dict_get js ''ratedAdult'' PNone),
      (''sidebar'', dict_get js ''sidebar'' (PStr '''')),
      (''date'', dict_get js ''creationDate'' PNone),
      (''voat'', v),
      (''subscribers'', dict_get js ''subscriberCount'' (PInt (- 1))),
      (''description'', dict_get js ''description'' (PStr ''''))]"
  by (simp add: Subverse_from_dict_def ctor_simps)

lemma construct_Submission_eq:
  "construct Submission
     [(''title'', a1), (''content'', a2), (''comments'', a3), (''author'', a4), (''post_id'', a5),
      (''subverse'', a6), (''karma'', a7), (''views'', a8), (''date'', a9), (''voat'', a10),
      (''is_url'', a11)]
   = Inr [(''title'', a1), (''content'', a2), (''_comments'', PNone), (''author'', a4),
          (''post_id'', a5), (''subverse'', a6), (''karma'', a7), (''views'', a8), (''date'', a9),
          (''voat'', a10), (''is_url'', a11)]"
  by (simp add: ctor_simps)

lemma construct_Comment_eq:
  "construct Comment
     [(''voat'', a1), (''comment_id'', a2), (''date'', a3), (''content'', a4), (''karma'', a5),
      (''subverse'', a6), (''author'', a7), (''parent_id'', a8), (''submission_id'', a9)]
   = Inr [(''voat'', a1), (''comment_id'', a2), (''date'', a3), (''content'', a4), (''karma'', a5),
      (''subverse'', a6), (''author'', a7), (''parent_id'', a8), (''submission_id'', a9)]"
  by (simp add: ctor_simps)

lemma Submission_from_dict_no_date:
  assumes "\<not> py_truthy (dict_get js ''date'' PNone)"
  shows "Submission_from_dict p js v = Inr
     [(''title'', dict_get js ''title'' (PStr '''')),
      (''content'', dict_get js ''content'' (PStr '''')),
      (''_comments'', PNone),
      (''author'', dict_get js ''userName'' (PStr '''')),
      (''post_id'', dict_get js ''id'' (PInt (- 1))),
      (''subverse'', dict_get js ''subverse'' (PStr '''')),
      (''karma'', dict_get js ''upVotes'' (PInt (- 1))),
      (''views'', dict_get js ''views'' (PInt (- 1))),
      (''date'', PNone),
      (''voat'', v),
      (''is_url'', PBool (py_truthy (dict_get js ''url'' PNone)))]"
  using assms
  by (simp add: Submission_from_dict_def Let_def construct_Submission_eq bind_exn_def)

lemma Submission_from_dict_date:
  assumes "dict_get js ''date'' PNone = PStr s" and "s \<noteq> []"
    and "p (takeWhile (\<lambda>c. c \<noteq> CHR ''.'') s)"
  shows "Submission_from_dict p js v = Inr
     [(''title'', dict_get js ''title'' (PStr '''')),
      (''content'', dict_get js ''content'' (PStr '''')),
      (''_comments'', PNone),
      (''author'', dict_get js ''userName'' (PStr '''')),
      (''post_id'', dict_get js ''id'' (PInt (- 1))),
      (''subverse'', dict_get js ''subverse'' (PStr '''')),
      (''karma'', dict_get js ''upVotes'' (PInt (- 1))),
      (''views'', dict_get js ''views'' (PInt (- 1))),
      (''date'', PStr s),
      (''voat'', v),
      (''is_url'', PBool (py_truthy (dict_get js ''url'' PNone)))]"
  using assms
  by (simp add: Submission_from_dict_def Let_def construct_Submission_eq bind_exn_def)

lemma Submission_from_dict_karma:
  assumes "Submission_from_dict p js v = Inr a"
  shows "attr a ''karma'' = Inr (dict_get js ''upVotes'' (PInt (- 1)))"
  using assms
  by (auto simp: Submission_from_dict_def Let_def construct_Submission_eq bind_exn_def attr_def
      split: sum.splits if_splits)

lemma Comment_from_dict_missing:
  assumes "k \<in> set [''date'', ''id'', ''content'', ''upVotes'', ''downVotes'', ''subverse'',
                     ''userName'', ''parentID'', ''submissionID'']"
    and "map_of js k = None"
  shows "isl (Comment_from_dict js v)"
  using assms
  by (auto simp: Comment_from_dict_def bind_exn_def dict_item_def
      split: option.splits sum.splits)

lemma Comment_from_dict_ok:
  assumes "map_of js ''date'' = Some dt" "map_of js ''id'' = Some cid"
    "map_of js ''content'' = Some ct" "map_of js ''upVotes'' = Some up"
    "map_of js ''downVotes'' = Some down" "map_of js ''subverse'' = Some sv"
    "map_of js ''userName'' = Some un" "map_of js ''parentID'' = Some pid"
    "map_of js ''submissionID'' = Some sid"
    "int_of up = Some m" "int_of down = Some n"
  shows "Comment_from_dict js v = Inr
      [(''voat'', v), (''comment_id'', cid), (''date'', dt), (''content'', ct),
       (''karma'', PInt (m - n)), (''subverse'', sv), (''author'', un), (''parent_id'', pid),
       (''submission_id'', sid)]"
  using assms
  by (simp add: Comment_from_dict_def bind_exn_def dict_item_def py_sub_def
      construct_Comment_eq)

lemma Comment_from_dict_karma:
  assumes "Comment_from_dict js v = Inr a"
  shows "\<exists>up down m n. map_of js ''upVotes'' = Some up \<and> map_of js ''downVotes'' = Some down
           \<and> int_of up = Some m \<and> int_of down = Some n
           \<and> attr a ''karma'' = Inr (PInt (m - n))"
  using assms
  by (auto simp: Comment_from_dict_def bind_exn_def dict_item_def py_sub_def
      construct_Comment_eq attr_def split: option.splits sum.splits)

text \<open>
  Claim C8. \<^verbatim>\<open>Submission.from_dict({})\<close> succeeds whatever \<^verbatim>\<open>strptime\<close> accepts (it is not
  called): title, content, author and subverse are empty strings, the post id, karma and
  views are \<open>-1\<close>, the date and the handle are \<^verbatim>\<open>None\<close>, \<^verbatim>\<open>is_url\<close> is \<^verbatim>\<open>False\<close>; and
  \<^verbatim>\<open>comments\<close> on that entity is the empty list, with the world unchanged.
\<close>

theorem submission_from_empty_dict:
  "Submission_from_dict strptime_ok [] PNone = Inr
     [(''title'', PStr ''''), (''content'', PStr ''''), (''_comments'', PNone),
      (''author'', PStr ''''), (''post_id'', PInt (- 1)), (''subverse'', PStr ''''),
      (''karma'', PInt (- 1)), (''views'', PInt (- 1)), (''date'', PNone), (''voat'', PNone),
      (''is_url'', PBool False)]
   \<and> fst (Submission_comments h
       [(''title'', PStr ''''), (''content'', PStr ''''), (''_comments'', PNone),
        (''author'', PStr ''''), (''post_id'', PInt (- 1)), (''subverse'', PStr ''''),
        (''karma'', PInt (- 1)), (''views'', PInt (- 1)), (''date'', PNone), (''voat'', PNone),
        (''is_url'', PBool False)] w) = Inr (PList [])
   \<and> snd (snd (Submission_comments h
       [(''title'', PStr ''''), (''content'', PStr ''''), (''_comments'', PNone),
        (''author'', PStr ''''), (''post_id'', PInt (- 1)), (''subverse'', PStr ''''),
        (''karma'', PInt (- 1)), (''views'', PInt (- 1)), (''date'', PNone), (''voat'', PNone),
        (''is_url'', PBool False)] w)) = w"
proof -
  have "\<not> py_truthy (dict_get [] ''date'' PNone)"
    by (simp add: dict_get_def)
  then have "Submission_from_dict strptime_ok [] PNone = Inr
     [(''title'', PStr ''''), (''content'', PStr ''''), (''_comments'', PNone),
      (''author'', PStr ''''), (''post_id'', PInt (- 1)), (''subverse'', PStr ''''),
      (''karma'', PInt (- 1)), (''views'', PInt (- 1)), (''date'', PNone), (''voat'', PNone),
      (''is_url'', PBool False)]"
    by (simp add: Submission_from_dict_no_date) (simp add: dict_get_def)
  moreover have "Submission_comments h
       [(''title'', PStr ''''), (''content'', PStr ''''), (''_comments'', PNone),
        (''author'', PStr ''''), (''post_id'', PInt (- 1)), (''subverse'', PStr ''''),
        (''karma'', PInt (- 1)), (''views'', PInt (- 1)), (''date'', PNone), (''voat'', PNone),
        (''is_url'', PBool False)] w =
      (Inr (PList []),
       [(''title'', PStr ''''), (''content'', PStr ''''), (''_comments'', PList []),
        (''author'', PStr ''''), (''post_id'', PInt (- 1)), (''subverse'', PStr ''''),
        (''karma'', PInt (- 1)), (''views'', PInt (- 1)), (''date'', PNone), (''voat'', PNone),
        (''is_url'', PBool False)], w)"
    by (simp add: Submission_comments_def getattr_def attr_def)
  ultimately show ?thesis by simp
qed

text \<open>
  Claim C6, as amended. \<^verbatim>\<open>Subverse.from_dict\<close> succeeds on every payload.
  \<^verbatim>\<open>Submission.from_dict\<close> succeeds on every payload whose date is missing or falsy, or is
  a non-empty string whose part before the first dot \<^verbatim>\<open>strptime\<close> accepts. Both read
  each field with \<^verbatim>\<open>get\<close>, so a missing field takes its default. \<^verbatim>\<open>Comment.from_dict\<close> has
  no defaults: when one of its nine fields is missing it raises.
\<close>

theorem from_dict_defaults:
  "Subverse_from_dict js v = Inr
     [(''title'', dict_get js ''title'' (PStr '''')),
      (''name'', dict_get js ''name'' (PStr '''')),
      (''nsfw'', dict_get js ''ratedAdult'' PNone),
      (''sidebar'', dict_get js ''sidebar'' (PStr '''')),
      (''date'', dict_get js ''creationDate'' PNone),
      (''voat'', v),
      (''subscribers'', dict_get js ''subscriberCount'' (PInt (- 1))),
      (''description'', dict_get js ''description'' (PStr ''''))]
   \<and> (\<not> py_truthy (dict_get js ''date'' PNone) \<longrightarrow>
       Submission_from_dict p js v = Inr
         [(''title'', dict_get js ''title'' (PStr '''')),
          (''content'', dict_get js ''content'' (PStr '''')),
          (''_comments'', PNone),
          (''author'', dict_get js ''userName'' (PStr '''')),
          (''post_id'', dict_get js ''id'' (PInt (- 1))),
          (''subverse'', dict_get js ''subverse'' (PStr '''')),
          (''karma'', dict_get js ''upVotes'' (PInt (- 1))),
          (''views'', dict_get js ''views'' (PInt (- 1))),
          (''date'', PNone),
          (''voat'', v),
          (''is_url'', PBool (py_truthy (dict_get js ''url'' PNone)))])
   \<and> (dict_get js ''date'' PNone = PStr s \<and> s \<noteq> [] \<and> p (takeWhile (\<lambda>c. c \<noteq> CHR ''.'') s) \<longrightarrow>
       Submission_from_dict p js v = Inr
         [(''title'', dict_get js ''title'' (PStr '''')),
          (''content'', dict_get js ''content'' (PStr '''')),
          (''_comments'', PNone),
          (''author'', dict_get js ''userName'' (PStr '''')),
          (''post_id'', dict_get js ''id'' (PInt (- 1))),
          (''subverse'', dict_get js ''subverse'' (PStr '''')),
          (''karma'', dict_get js ''upVotes'' (PInt (- 1))),
          (''views'', dict_get js ''views'' (PInt (- 1))),
          (''date'', PStr s),
          (''voat'', v),
          (''is_url'', PBool (py_truthy (dict_get js ''url'' PNone)))])
   \<and> (map_of js k = None \<longrightarrow> dict_get js k dflt = dflt)
   \<and> (k \<in> set [''date'', ''id'', ''content'', ''upVotes'', ''downVotes'', ''subverse'',
                 ''userName'', ''parentID'', ''submissionID'']
        \<and> map_of js k = None \<longrightarrow> isl (Comment_from_dict js v))"
  using Subverse_from_dict_eq[of js v] Submission_from_dict_no_date[of js p v]
    Submission_from_dict_date[of js s p v] dict_get_missing[of js k dflt]
    Comment_from_dict_missing[of k js v]
  by blast

theorem from_dict_defaults_witness:
  "Subverse_from_dict [(''name'', PStr ''pics'')] PNone = Inr
     [(''title'', PStr ''''), (''name'', PStr ''pics''), (''nsfw'', PNone),
      (''sidebar'', PStr ''''), (''date'', PNone), (''voat'', PNone),
      (''subscribers'', PInt (- 1)), (''description'', PStr '''')]
   \<and> Submission_from_dict ex_strptime_ok [(''title'', PStr ''hello'')] (PVoat 0) = Inr
     [(''title'', PStr ''hello''), (''content'', PStr ''''), (''_comments'', PNone),
      (''author'', PStr ''''), (''post_id'', PInt (- 1)), (''subverse'', PStr ''''),
      (''karma'', PInt (- 1)), (''views'', PInt (- 1)), (''date'', PNone),
      (''voat'', PVoat 0), (''is_url'', PBool False)]
   \<and> Submission_from_dict ex_strptime_ok [(''date'', PStr ''2015-06-01T12:00:00.25'')] PNone
     = Inr
     [(''title'', PStr ''''), (''content'', PStr ''''), (''_comments'', PNone),
      (''author'', PStr ''''), (''post_id'', PInt (- 1)), (''subverse'', PStr ''''),
      (''karma'', PInt (- 1)), (''views'', PInt (- 1)),
      (''date'', PStr ''2015-06-01T12:00:00.25''),
      (''voat'', PNone), (''is_url'', PBool False)]
   \<and> dict_get [(''title'', PStr ''hello'')] ''views'' (PInt (- 1)) = PInt (- 1)
   \<and> isl (Comment_from_dict [(''date'', PStr ''2015-06-01T12:00:00.25'')] PNone)"
proof -
  have a: "\<not> py_truthy (dict_get [(''title'', PStr ''hello'')] ''date'' PNone)"
    by (simp add: dict_get_def)
  have b: "dict_get [(''date'', PStr ''2015-06-01T12:00:00.25'')] ''date'' PNone
             = PStr ''2015-06-01T12:00:00.25''
           \<and> ''2015-06-01T12:00:00.25'' \<noteq> []
           \<and> ex_strptime_ok (takeWhile (\<lambda>c. c \<noteq> CHR ''.'') ''2015-06-01T12:00:00.25'')"
    by (simp add: dict_get_def ex_strptime_ok_def)
  have c: "map_of [(''title'', PStr ''hello'')] ''views'' = None"
    by simp
  have d: "''id'' \<in> set [''date'', ''id'', ''content'', ''upVotes'', ''downVotes'', ''subverse'',
                 ''userName'', ''parentID'', ''submissionID'']
       \<and> map_of [(''date'', PStr ''2015-06-01T12:00:00.25'')] ''id'' = None"
    by simp
  note t = from_dict_defaults
  have 1: "Subverse_from_dict [(''name'', PStr ''pics'')] PNone = Inr
     [(''title'', PStr ''''), (''name'', PStr ''pics''), (''nsfw'', PNone),
      (''sidebar'', PStr ''''), (''date'', PNone), (''voat'', PNone),
      (''subscribers'', PInt (- 1)), (''description'', PStr '''')]"
    using t[of "[(''name'', PStr ''pics'')]" PNone, THEN conjunct1]
    by (simp add: dict_get_def)
  have 2: "Submission_from_dict ex_strptime_ok [(''title'', PStr ''hello'')] (PVoat 0) = Inr
     [(''title'', PStr ''hello''), (''content'', PStr ''''), (''_comments'', PNone),
      (''author'', PStr ''''), (''post_id'', PInt (- 1)), (''subverse'', PStr ''''),
      (''karma'', PInt (- 1)), (''views'', PInt (- 1)), (''date'', PNone),
      (''voat'', PVoat 0), (''is_url'', PBool False)]"
    using t[of "[(''title'', PStr ''hello'')]" "PVoat 0" ex_strptime_ok,
        THEN conjunct2, THEN conjunct1, rule_format, OF a]
    by (simp add: dict_get_def)
  have 3: "Submission_from_dict ex_strptime_ok [(''date'', PStr ''2015-06-01T12:00:00.25'')]
       PNone = Inr
     [(''title'', PStr ''''), (''content'', PStr ''''), (''_comments'', PNone),
      (''author'', PStr ''''), (''post_id'', PInt (- 1)), (''subverse'', PStr ''''),
      (''karma'', PInt (- 1)), (''views'', PInt (- 1)),
      (''date'', PStr ''2015-06-01T12:00:00.25''),
      (''voat'', PNone), (''is_url'', PBool False)]"
    using t[of "[(''date'', PStr ''2015-06-01T12:00:00.25'')]" PNone ex_strptime_ok
          "''2015-06-01T12:00:00.25''",
        THEN conjunct2, THEN conjunct2, THEN conjunct1, rule_format, OF b]
    by (simp add: dict_get_def)
  have 4: "dict_get [(''title'', PStr ''hello'')] ''views'' (PInt (- 1)) = PInt (- 1)"
    using t[of "[(''title'', PStr ''hello'')]" v p s "''views''" "PInt (- 1)",
        THEN conjunct2, THEN conjunct2, THEN conjunct2, THEN conjunct1, rule_format, OF c] .
  have 5: "isl (Comment_from_dict [(''date'', PStr ''2015-06-01T12:00:00.25'')] PNone)"
    using t[of "[(''date'', PStr ''2015-06-01T12:00:00.25'')]" PNone p s "''id''" dflt,
        THEN conjunct2, THEN conjunct2, THEN conjunct2, THEN conjunct2, rule_format, OF d] .
  from 1 2 3 4 5 show ?thesis by blast
qed

text \<open>
  The claim as stated fails for comments: \<^verbatim>\<open>Comment.from_dict({})\<close> raises
  \<^verbatim>\<open>KeyError('date')\<close>.
\<close>

theorem comment_from_empty_dict_counterexample:
  "Comment_from_dict [] PNone = Inl (KeyError ''date'')"
  by (simp add: Comment_from_dict_def bind_exn_def dict_item_def)

text \<open>
  Claim C7, as amended. \<^verbatim>\<open>Comment.from_dict\<close> on a payload that has all nine fields, with
  integers \<open>m\<close> and \<open>n\<close> for \<^verbatim>\<open>upVotes\<close> and \<^verbatim>\<open>downVotes\<close>, builds a comment whose karma is
  \<open>m - n\<close>, and every comment it builds has such a karma. Every submission that
  \<^verbatim>\<open>Submission.from_dict\<close> builds has the payload's \<^verbatim>\<open>upVotes\<close> as its karma, \<open>-1\<close> when the
  field is missing; \<^verbatim>\<open>downVotes\<close> is not read.
\<close>

theorem from_dict_karma:
  "(map_of js ''date'' = Some dt \<and> map_of js ''id'' = Some cid
      \<and> map_of js ''content'' = Some ct \<and> map_of js ''upVotes'' = Some up
      \<and> map_of js ''downVotes'' = Some down \<and> map_of js ''subverse'' = Some sv
      \<and> map_of js ''userName'' = Some un \<and> map_of js ''parentID'' = Some pid
      \<and> map_of js ''submissionID'' = Some sid
      \<and> int_of up = Some m \<and> int_of down = Some n \<longrightarrow>
      result_attr (Comment_from_dict js v) ''karma'' = Inr (PInt (m - n)))
   \<and> (Comment_from_dict js v = Inr a \<longrightarrow>
       (\<exists>up' down' m' n'. map_of js ''upVotes'' = Some up' \<and> map_of js ''downVotes'' = Some down'
           \<and> int_of up' = Some m' \<and> int_of down' = Some n'
           \<and> attr a ''karma'' = Inr (PInt (m' - n'))))
   \<and> (Submission_from_dict p js v = Inr b \<longrightarrow>
       attr b ''karma'' = Inr (dict_get js ''upVotes'' (PInt (- 1))))"
proof (intro conjI impI)
  assume "map_of js ''date'' = Some dt \<and> map_of js ''id'' = Some cid
      \<and> map_of js ''content'' = Some ct \<and> map_of js ''upVotes'' = Some up
      \<and> map_of js ''downVotes'' = Some down \<and> map_of js ''subverse'' = Some sv
      \<and> map_of js ''userName'' = Some un \<and> map_of js ''parentID'' = Some pid
      \<and> map_of js ''submissionID'' = Some sid
      \<and> int_of up = Some m \<and> int_of down = Some n"
  then have "Comment_from_dict js v = Inr
      [(''voat'', v), (''comment_id'', cid), (''date'', dt), (''content'', ct),
       (''karma'', PInt (m - n)), (''subverse'', sv), (''author'', un), (''parent_id'', pid),
       (''submission_id'', sid)]"
    using Comment_from_dict_ok[of js dt cid ct up down sv un pid sid m n v] by blast
  then show "result_attr (Comment_from_dict js v) ''karma'' = Inr (PInt (m - n))"
    by (simp add: result_attr_def bind_exn_def attr_def)
next
  assume "Comment_from_dict js v = Inr a"
  then show "\<exists>up' down' m' n'. map_of js ''upVotes'' = Some up'
           \<and> map_of js ''downVotes'' = Some down'
           \<and> int_of up' = Some m' \<and> int_of down' = Some n'
           \<and> attr a ''karma'' = Inr (PInt (m' - n'))"
    by (rule Comment_from_dict_karma)
next
  assume "Submission_from_dict p js v = Inr b"
  then show "attr b ''karma'' = Inr (dict_get js ''upVotes'' (PInt (- 1)))"
    by (rule Submission_from_dict_karma)
qed

theorem from_dict_karma_witness:
  "result_attr (Comment_from_dict
      [(''date'', PStr ''2015-06-01T12:00:00''), (''id'', PInt 4), (''content'', PStr ''hi''),
       (''upVotes'', PInt 5), (''downVotes'', PInt 2), (''subverse'', PStr ''pics''),
       (''userName'', PStr ''bob''), (''parentID'', PNone), (''submissionID'', PInt 7)]
      PNone) ''karma'' = Inr (PInt 3)
   \<and> attr [(''title'', PStr ''''), (''content'', PStr ''''), (''_comments'', PNone),
      (''author'', PStr ''''), (''post_id'', PInt (- 1)), (''subverse'', PStr ''''),
      (''karma'', PInt 5), (''views'', PInt (- 1)), (''date'', PNone), (''voat'', PNone),
      (''is_url'', PBool False)] ''karma'' = Inr (PInt 5)
   \<and> (\<exists>up' down' m' n'.
        map_of [(''date'', PStr ''2015-06-01T12:00:00''), (''id'', PInt 4),
          (''content'', PStr ''hi''), (''upVotes'', PInt 5), (''downVotes'', PInt 2),
          (''subverse'', PStr ''pics''), (''userName'', PStr ''bob''), (''parentID'', PNone),
          (''submissionID'', PInt 7)] ''upVotes'' = Some up'
        \<and> map_of [(''date'', PStr ''2015-06-01T12:00:00''), (''id'', PInt 4),
          (''content'', PStr ''hi''), (''upVotes'', PInt 5), (''downVotes'', PInt 2),
          (''subverse'', PStr ''pics''), (''userName'', PStr ''bob''), (''parentID'', PNone),
          (''submissionID'', PInt 7)] ''downVotes'' = Some down'
        \<and> int_of up' = Some m' \<and> int_of down' = Some n'
        \<and> attr [(''voat'', PNone), (''comment_id'', PInt 4),
            (''date'', PStr ''2015-06-01T12:00:00''), (''content'', PStr ''hi''),
            (''karma'', PInt 3), (''subverse'', PStr ''pics''), (''author'', PStr ''bob''),
            (''parent_id'', PNone), (''submission_id'', PInt 7)] ''karma''
          = Inr (PInt (m' - n')))"
proof -
  let ?js = "[(''date'', PStr ''2015-06-01T12:00:00''), (''id'', PInt 4),
       (''content'', PStr ''hi''), (''upVotes'', PInt 5), (''downVotes'', PInt 2),
       (''subverse'', PStr ''pics''), (''userName'', PStr ''bob''), (''parentID'', PNone),
       (''submissionID'', PInt 7)]"
  let ?c = "[(''voat'', PNone), (''comment_id'', PInt 4),
            (''date'', PStr ''2015-06-01T12:00:00''), (''content'', PStr ''hi''),
            (''karma'', PInt 3), (''subverse'', PStr ''pics''), (''author'', PStr ''bob''),
            (''parent_id'', PNone), (''submission_id'', PInt 7)]"
  let ?s = "[(''title'', PStr ''''), (''content'', PStr ''''), (''_comments'', PNone),
      (''author'', PStr ''''), (''post_id'', PInt (- 1)), (''subverse'', PStr ''''),
      (''karma'', PInt 5), (''views'', PInt (- 1)), (''date'', PNone), (''voat'', PNone),
      (''is_url'', PBool False)]"
  note t = from_dict_karma
  have a: "map_of ?js ''date'' = Some (PStr ''2015-06-01T12:00:00'')
      \<and> map_of ?js ''id'' = Some (PInt 4)
      \<and> map_of ?js ''content'' = Some (PStr ''hi'') \<and> map_of ?js ''upVotes'' = Some (PInt 5)
      \<and> map_of ?js ''downVotes'' = Some (PInt 2) \<and> map_of ?js ''subverse'' = Some (PStr ''pics'')
      \<and> map_of ?js ''userName'' = Some (PStr ''bob'') \<and> map_of ?js ''parentID'' = Some PNone
      \<and> map_of ?js ''submissionID'' = Some (PInt 7)
      \<and> int_of (PInt 5) = Some 5 \<and> int_of (PInt 2) = Some 2"
    by simp
  have b: "Comment_from_dict ?js PNone = Inr ?c"
    by (simp add: Comment_from_dict_def bind_exn_def dict_item_def py_sub_def
        construct_Comment_eq)
  have c: "Submission_from_dict ex_strptime_ok [(''upVotes'', PInt 5), (''downVotes'', PInt 2)]
             PNone = Inr ?s"
    by (simp add: Submission_from_dict_no_date dict_get_def)
  have 1: "result_attr (Comment_from_dict ?js PNone) ''karma'' = Inr (PInt 3)"
    using t[of ?js "PStr ''2015-06-01T12:00:00''" "PInt 4" "PStr ''hi''" "PInt 5" "PInt 2"
          "PStr ''pics''" "PStr ''bob''" PNone "PInt 7" 5 2 PNone,
        THEN conjunct1, rule_format, OF a]
    by simp
  have 2: "\<exists>up' down' m' n'. map_of ?js ''upVotes'' = Some up'
        \<and> map_of ?js ''downVotes'' = Some down'
        \<and> int_of up' = Some m' \<and> int_of down' = Some n'
        \<and> attr ?c ''karma'' = Inr (PInt (m' - n'))"
    using t[of ?js dt cid ct up down sv un pid sid m n PNone ?c,
        THEN conjunct2, THEN conjunct1, rule_format, OF b] .
  have 3: "attr ?s ''karma'' = Inr (PInt 5)"
    using t[of "[(''upVotes'', PInt 5), (''downVotes'', PInt 2)]" dt cid ct up down sv un pid
          sid m n PNone a ex_strptime_ok ?s,
        THEN conjunct2, THEN conjunct2, rule_format, OF c]
    by (simp add: dict_get_def)
  from 1 2 3 show ?thesis by blast
qed

text \<open>
  The claim as stated fails for submissions: with 5 up-votes and 2 down-votes the karma
  of the submission is 5, not 3.
\<close>

theorem submission_karma_counterexample:
  "result_attr (Submission_from_dict ex_strptime_ok
      [(''upVotes'', PInt 5), (''downVotes'', PInt 2)] PNone) ''karma'' = Inr (PInt 5)
   \<and> result_attr (Submission_from_dict ex_strptime_ok
      [(''upVotes'', PInt 5), (''downVotes'', PInt 2)] PNone) ''karma'' \<noteq> Inr (PInt (5 - 2))"
  by (simp add: Submission_from_dict_no_date dict_get_def result_attr_def bind_exn_def attr_def)

end
